theory Spec2Isabelle
  imports Complex_Main "HOL-Library.AList" "HOL-Library.Sublist"
begin

section \<open>Floats\<close>

text \<open>
  A Python \<open>float\<close>: a finite value (a rational here), an infinity, or NaN. Every
  comparison with NaN is false.
\<close>

datatype pyfloat = Finite rat | PosInf | NegInf | NaN

fun float_le :: "pyfloat \<Rightarrow> pyfloat \<Rightarrow> bool" where
  "float_le NaN b = False"
| "float_le a NaN = False"
| "float_le NegInf b = True"
| "float_le a PosInf = True"
| "float_le (Finite a) (Finite b) = (a \<le> b)"
| "float_le a b = False"

definition float_ge :: "pyfloat \<Rightarrow> pyfloat \<Rightarrow> bool" where
  "float_ge a b = float_le b a"

section \<open>Wire values\<close>

text \<open>
  Values of Python's \<open>Any\<close> as they travel in MCP messages. A dict is an association
  list in insertion order; \<open>JNull\<close> is Python's \<open>None\<close>.
\<close>

datatype json =
    JNull
  | JBool bool
  | JInt int
  | JFloat pyfloat
  | JStr string
  | JList "json list"
  | JObj "(string \<times> json) list"

type_synonym pydict = "(string \<times> json) list"

text \<open>\<open>k in d\<close>, \<open>d.get(k)\<close> and \<open>d[k] = v\<close> on a dict.\<close>

definition has_key :: "pydict \<Rightarrow> string \<Rightarrow> bool" where
  "has_key d k = (map_of d k \<noteq> None)"

definition dict_get :: "pydict \<Rightarrow> string \<Rightarrow> json" where
  "dict_get d k = (case map_of d k of None \<Rightarrow> JNull | Some v \<Rightarrow> v)"

definition dict_set :: "pydict \<Rightarrow> string \<Rightarrow> json \<Rightarrow> pydict" where
  "dict_set d k v = AList.update k v d"

text \<open>
  A \<open>datetime\<close> is an instant, counted in microseconds. \<open>datetime.now(timezone.utc)\<close>
  reads the wall clock: every reading is an input of the function that takes it.
\<close>

type_synonym datetime = int

section \<open>Task state machine (mcp/tasks/state.py)\<close>

datatype TaskState = PENDING | RUNNING | COMPLETED | FAILED | CANCELLED

record TaskProgress =
  progress_current :: int
  progress_total :: "int option"
  progress_message :: "string option"

record TaskError =
  error_code :: int
  error_message :: string
  error_data :: json

text \<open>
  The \<open>Task\<close> dataclass, over the type \<open>'dt\<close> of the values in its datetime fields. The
  state machine and the task manager stamp those fields with clock readings, which are
  instants; the wire format handles any datetime object a task may be built with.
\<close>

record 'dt Task_of =
  task_id :: string
  task_type :: string
  task_state :: TaskState
  task_progress :: "TaskProgress option"
  task_result :: json
  task_error :: "TaskError option"
  created_at :: 'dt
  updated_at :: 'dt
  started_at :: "'dt option"
  completed_at :: "'dt option"
  metadata :: pydict

type_synonym Task = "datetime Task_of"

fun VALID_TRANSITIONS :: "TaskState \<Rightarrow> TaskState list" where
  "VALID_TRANSITIONS PENDING = [RUNNING, CANCELLED]"
| "VALID_TRANSITIONS RUNNING = [COMPLETED, FAILED, CANCELLED]"
| "VALID_TRANSITIONS COMPLETED = []"
| "VALID_TRANSITIONS FAILED = []"
| "VALID_TRANSITIONS CANCELLED = []"

datatype task_exception = InvalidTaskTransition string TaskState TaskState

definition is_terminal_state :: "TaskState \<Rightarrow> bool" where
  "is_terminal_state s = (s \<in> {COMPLETED, FAILED, CANCELLED})"

definition is_terminal :: "Task \<Rightarrow> bool" where
  "is_terminal t = is_terminal_state (task_state t)"

definition is_active :: "Task \<Rightarrow> bool" where
  "is_active t = (task_state t \<in> {PENDING, RUNNING})"

text \<open>
  \<open>Task.transition\<close> mutates the task or raises. The model returns the exception raised,
  if any, together with the task as the call leaves it. \<open>now1\<close> and \<open>now2\<close> are the two
  clock readings the method takes, in the order it takes them.
\<close>

definition transition ::
  "Task \<Rightarrow> TaskState \<Rightarrow> datetime \<Rightarrow> datetime \<Rightarrow> task_exception option \<times> Task" where
  "transition t new_state now1 now2 =
     (if new_state \<notin> set (VALID_TRANSITIONS (task_state t))
      then (Some (InvalidTaskTransition (task_id t) (task_state t) new_state), t)
      else
        let t1 = t\<lparr>task_state := new_state\<rparr>;
            t2 = t1\<lparr>updated_at := now1\<rparr>
        in if new_state = RUNNING then (None, t2\<lparr>started_at := Some now2\<rparr>)
           else if new_state \<in> {COMPLETED, FAILED, CANCELLED}
           then (None, t2\<lparr>completed_at := Some now2\<rparr>)
           else (None, t2))"

definition update_progress ::
  "Task \<Rightarrow> int \<Rightarrow> int option \<Rightarrow> string option \<Rightarrow> datetime \<Rightarrow> Task" where
  "update_progress t cur tot msg now =
     t\<lparr>task_progress :=
         Some \<lparr>progress_current = cur, progress_total = tot, progress_message = msg\<rparr>,
       updated_at := now\<rparr>"

text \<open>
  \<open>Task(id=..., type=..., metadata=...)\<close> with every other field at its default: the
  state is PENDING, and \<open>created_at\<close> and \<open>updated_at\<close> are two clock readings.
\<close>

definition new_task :: "string \<Rightarrow> string \<Rightarrow> pydict \<Rightarrow> datetime \<Rightarrow> datetime \<Rightarrow> Task" where
  "new_task ident ty meta now1 now2 =
     \<lparr>task_id = ident, task_type = ty, task_state = PENDING, task_progress = None,
      task_result = JNull, task_error = None, created_at = now1, updated_at = now2,
      started_at = None, completed_at = None, metadata = meta\<rparr>"

text \<open>The permitted edges of the task life cycle, as a relation.\<close>

definition task_edges :: "(TaskState \<times> TaskState) set" where
  "task_edges =
     {(PENDING, RUNNING), (PENDING, CANCELLED),
      (RUNNING, COMPLETED), (RUNNING, FAILED), (RUNNING, CANCELLED)}"

section \<open>Protocol state machine (mcp/protocol/state.py)\<close>

datatype ProtocolState =
  DISCONNECTED | CONNECTING | INITIALIZING | READY | CLOSING | CLOSED

fun PROTOCOL_VALID_TRANSITIONS :: "ProtocolState \<Rightarrow> ProtocolState list" where
  "PROTOCOL_VALID_TRANSITIONS DISCONNECTED = [CONNECTING]"
| "PROTOCOL_VALID_TRANSITIONS CONNECTING = [INITIALIZING, DISCONNECTED]"
| "PROTOCOL_VALID_TRANSITIONS INITIALIZING = [READY, DISCONNECTED]"
| "PROTOCOL_VALID_TRANSITIONS READY = [CLOSING, DISCONNECTED]"
| "PROTOCOL_VALID_TRANSITIONS CLOSING = [CLOSED, DISCONNECTED]"
| "PROTOCOL_VALID_TRANSITIONS CLOSED = []"

datatype protocol_exception = InvalidStateTransition ProtocolState ProtocolState

text \<open>
  A listener is a callback; the machine keeps them in registration order. What a listener
  does is outside the machine, and an exception it raises is swallowed, so the model
  records each invocation (which listener, with which two states) in \<open>invoked\<close>.
\<close>

record ProtocolStateMachine =
  psm_state :: ProtocolState
  listeners :: "nat list"
  invoked :: "(nat \<times> ProtocolState \<times> ProtocolState) list"

definition psm_init :: "ProtocolState \<Rightarrow> ProtocolStateMachine" where
  "psm_init initial_state = \<lparr>psm_state = initial_state, listeners = [], invoked = []\<rparr>"

definition psm_is_connected :: "ProtocolStateMachine \<Rightarrow> bool" where
  "psm_is_connected m = (psm_state m \<in> {INITIALIZING, READY})"

definition psm_is_ready :: "ProtocolStateMachine \<Rightarrow> bool" where
  "psm_is_ready m = (psm_state m = READY)"

definition can_transition_to :: "ProtocolStateMachine \<Rightarrow> ProtocolState \<Rightarrow> bool" where
  "can_transition_to m new_state = (new_state \<in> set (PROTOCOL_VALID_TRANSITIONS (psm_state m)))"

definition notify_listeners ::
  "ProtocolStateMachine \<Rightarrow> ProtocolState \<Rightarrow> ProtocolState \<Rightarrow> ProtocolStateMachine" where
  "notify_listeners m old_state new_state =
     m\<lparr>invoked := invoked m @ map (\<lambda>l. (l, old_state, new_state)) (listeners m)\<rparr>"

definition psm_transition ::
  "ProtocolStateMachine \<Rightarrow> ProtocolState \<Rightarrow> protocol_exception option \<times> ProtocolStateMachine" where
  "psm_transition m new_state =
     (if \<not> can_transition_to m new_state
      then (Some (InvalidStateTransition (psm_state m) new_state), m)
      else
        let old_state = psm_state m;
            m1 = m\<lparr>psm_state := new_state\<rparr>
        in (None, notify_listeners m1 old_state new_state))"

definition force_state :: "ProtocolStateMachine \<Rightarrow> ProtocolState \<Rightarrow> ProtocolStateMachine" where
  "force_state m new_state =
     (let old_state = psm_state m;
          m1 = m\<lparr>psm_state := new_state\<rparr>
      in notify_listeners m1 old_state new_state)"

definition on_transition :: "ProtocolStateMachine \<Rightarrow> nat \<Rightarrow> ProtocolStateMachine" where
  "on_transition m callback = m\<lparr>listeners := listeners m @ [callback]\<rparr>"

section \<open>Progress tracking (mcp/utilities/types.py, mcp/utilities/progress.py)\<close>

datatype token = TokStr string | TokInt int

record ProgressInfo =
  progress_token :: token
  progress :: pyfloat
  total :: "pyfloat option"
  message :: "string option"

definition ProgressInfo_is_complete :: "ProgressInfo \<Rightarrow> bool" where
  "ProgressInfo_is_complete info =
     (case total info of
        Some tot \<Rightarrow> float_ge (progress info) tot
      | None \<Rightarrow> False)"

record ProgressTracker =
  active :: "token \<rightharpoonup> ProgressInfo"
  completed :: "token set"

definition tracker_init :: ProgressTracker where
  "tracker_init = \<lparr>active = Map.empty, completed = {}\<rparr>"

definition start_tracking :: "ProgressTracker \<Rightarrow> token \<Rightarrow> ProgressTracker" where
  "start_tracking tr tok =
     tr\<lparr>active := (active tr)(tok \<mapsto>
            \<lparr>progress_token = tok, progress = Finite 0, total = None, message = None\<rparr>),
        completed := completed tr - {tok}\<rparr>"

definition update :: "ProgressTracker \<Rightarrow> ProgressInfo \<Rightarrow> ProgressTracker" where
  "update tr info =
     (let tr1 = tr\<lparr>active := (active tr)(progress_token info \<mapsto> info)\<rparr>
      in if ProgressInfo_is_complete info
         then tr1\<lparr>completed := insert (progress_token info) (completed tr1)\<rparr>
         else tr1)"

definition tracker_is_complete :: "ProgressTracker \<Rightarrow> token \<Rightarrow> bool" where
  "tracker_is_complete tr tok = (tok \<in> completed tr)"

definition get_progress :: "ProgressTracker \<Rightarrow> token \<Rightarrow> ProgressInfo option" where
  "get_progress tr tok = active tr tok"

definition remove :: "ProgressTracker \<Rightarrow> token \<Rightarrow> ProgressTracker" where
  "remove tr tok =
     tr\<lparr>active := (active tr)(tok := None), completed := completed tr - {tok}\<rparr>"

definition clear :: "ProgressTracker \<Rightarrow> ProgressTracker" where
  "clear tr = tr\<lparr>active := Map.empty, completed := {}\<rparr>"

text \<open>The calls a tracker receives over its life, and their effect in order.\<close>

datatype tracker_call =
  StartTracking token | Update ProgressInfo | Remove token | Clear

fun tracker_step :: "ProgressTracker \<Rightarrow> tracker_call \<Rightarrow> ProgressTracker" where
  "tracker_step tr (StartTracking tok) = start_tracking tr tok"
| "tracker_step tr (Update info) = update tr info"
| "tracker_step tr (Remove tok) = remove tr tok"
| "tracker_step tr Clear = clear tr"

definition tracker_run :: "ProgressTracker \<Rightarrow> tracker_call list \<Rightarrow> ProgressTracker" where
  "tracker_run tr calls = foldl tracker_step tr calls"

section \<open>Transport configuration (mcp/transport/types.py)\<close>

record TransportConfig =
  url :: string
  timeout :: pyfloat
  connect_timeout :: pyfloat
  headers :: "(string \<times> string) list"
  keep_alive :: bool
  max_concurrent_requests :: int
  verify_ssl :: bool

datatype value_error = ValueError string

text \<open>
  \<open>urlparse(url).hostname\<close> belongs to Python's standard library, so the validation takes
  it as a parameter \<open>hostname\<close>: the host, \<open>None\<close> when the url has none, or the
  \<open>ValueError\<close> that \<open>urlparse\<close> raises on a malformed url.
\<close>

definition is_localhost ::
  "(string \<Rightarrow> value_error + string option) \<Rightarrow> TransportConfig \<Rightarrow> value_error + bool" where
  "is_localhost hostname cfg =
     (case hostname (url cfg) of
        Inl e \<Rightarrow> Inl e
      | Inr parsed \<Rightarrow>
          let host = (case parsed of Some h \<Rightarrow> h | None \<Rightarrow> [])
          in Inr (host \<in> set [''localhost'', ''127.0.0.1'', ''::1'', ''[::1]'']))"

text \<open>
  \<open>__post_init__\<close> returns the exception it raises, or \<open>None\<close> when the configuration
  is accepted. \<open>_is_localhost\<close> is only called for a url that starts with \<open>http://\<close>.
\<close>

definition post_init ::
  "(string \<Rightarrow> value_error + string option) \<Rightarrow> TransportConfig \<Rightarrow> value_error option" where
  "post_init hostname cfg =
     (if url cfg = [] then Some (ValueError ''url is required'')
      else
        case (if prefix ''http://'' (url cfg)
              then (case is_localhost hostname cfg of
                      Inl e \<Rightarrow> Some e
                    | Inr local \<Rightarrow>
                        if \<not> local then Some (ValueError ''Remote connections must use https://'')
                        else None)
              else None) of
          Some e \<Rightarrow> Some e
        | None \<Rightarrow>
            if float_le (timeout cfg) (Finite 0) then Some (ValueError ''timeout must be positive'')
            else if float_le (connect_timeout cfg) (Finite 0)
              then Some (ValueError ''connect_timeout must be positive'')
            else if max_concurrent_requests cfg < 1
              then Some (ValueError ''max_concurrent_requests must be at least 1'')
            else None)"

text \<open>\<open>TransportConfig(url=u)\<close>: every other field at its default.\<close>

definition default_config :: "string \<Rightarrow> TransportConfig" where
  "default_config u =
     \<lparr>url = u, timeout = Finite 30, connect_timeout = Finite 10, headers = [],
      keep_alive = True, max_concurrent_requests = 10, verify_ssl = True\<rparr>"

section \<open>Streamable HTTP transport (mcp/transport/http.py)\<close>

text \<open>
  The transport holds an HTTP client, the session id and its connection flags. Events are
  emitted for observers only and handler errors are swallowed, so they are left out; the
  request semaphore only limits how many sends run at once.
\<close>

record StreamableHTTPTransport =
  config :: TransportConfig
  http_client :: bool
  session_id :: "string option"
  connected :: bool
  sse_task :: bool
  closing :: bool

datatype transport_exception = TransportError | ConnectionError | TimeoutError | SessionError

definition MCP_SESSION_HEADER :: string where
  "MCP_SESSION_HEADER = ''Mcp-Session-Id''"

definition transport_init :: "TransportConfig \<Rightarrow> StreamableHTTPTransport" where
  "transport_init cfg =
     \<lparr>config = cfg, http_client = False, session_id = None, connected = False,
      sse_task = False, closing = False\<rparr>"

text \<open>
  What the server answers to a POST, as \<open>_send_internal\<close> reads it: the status, the
  value of the \<open>Mcp-Session-Id\<close> header when the response has one, the \<open>Content-Type\<close>
  (empty when absent), and the decoded body (\<open>None\<close> when it does not decode).
\<close>

record http_response =
  status_code :: int
  session_header :: "string option"
  content_type :: string
  body :: "json option"

datatype post_outcome = PostTimeout | PostHTTPError | PostResponse http_response

text \<open>
  \<open>connect\<close>: \<open>ok\<close> says whether the HTTP client could be built. The result is the
  exception raised, if any, and the transport afterwards.
\<close>

definition connect ::
  "StreamableHTTPTransport \<Rightarrow> bool \<Rightarrow> transport_exception option \<times> StreamableHTTPTransport" where
  "connect tr ok =
     (if connected tr then (None, tr)
      else if ok then (None, tr\<lparr>http_client := True, connected := True, closing := False\<rparr>)
      else (Some ConnectionError, tr))"

definition disconnect :: "StreamableHTTPTransport \<Rightarrow> StreamableHTTPTransport" where
  "disconnect tr =
     (if \<not> connected tr \<and> \<not> http_client tr then tr
      else tr\<lparr>closing := True, sse_task := False, http_client := False,
              connected := False, session_id := None\<rparr>)"

text \<open>
  \<open>_send_internal\<close> returns the headers of the POST it issues, the value it returns or the
  exception it raises, and the transport afterwards. A session id that is \<open>None\<close> or the
  empty string is falsy and adds no header.
\<close>

definition request_headers :: "StreamableHTTPTransport \<Rightarrow> (string \<times> string) list" where
  "request_headers tr =
     [(''Content-Type'', ''application/json''),
      (''Accept'', ''application/json, text/event-stream'')]
     @ (case session_id tr of
          Some sid \<Rightarrow> if sid \<noteq> [] then [(MCP_SESSION_HEADER, sid)] else []
        | None \<Rightarrow> [])"

definition send_internal ::
  "StreamableHTTPTransport \<Rightarrow> pydict \<Rightarrow> post_outcome \<Rightarrow>
     (string \<times> string) list \<times> (transport_exception + json option) \<times> StreamableHTTPTransport" where
  "send_internal tr msg outcome =
     (let hdrs = request_headers tr in
      case outcome of
        PostTimeout \<Rightarrow> (hdrs, Inl TimeoutError, tr)
      | PostHTTPError \<Rightarrow> (hdrs, Inl TransportError, tr)
      | PostResponse response \<Rightarrow>
          let tr1 = (case session_header response of
                       Some new_session \<Rightarrow>
                         if session_id tr \<noteq> Some new_session
                         then tr\<lparr>session_id := Some new_session\<rparr> else tr
                     | None \<Rightarrow> tr)
          in if status_code response = 202 then (hdrs, Inr None, tr1)
             else if sublist ''text/event-stream'' (content_type response)
               then (hdrs, Inr None, tr1\<lparr>sse_task := True\<rparr>)
             else if status_code response \<ge> 400 then (hdrs, Inl TransportError, tr1)
             else if sublist ''application/json'' (content_type response)
               then (case body response of
                       Some result \<Rightarrow> (hdrs, Inr (Some result), tr1)
                     | None \<Rightarrow> (hdrs, Inl TransportError, tr1))
             else (hdrs, Inr None, tr1))"

text \<open>
  \<open>send\<close>: the first component is \<open>None\<close> when no POST is issued because the transport is
  not connected or is closing.
\<close>

definition send ::
  "StreamableHTTPTransport \<Rightarrow> pydict \<Rightarrow> post_outcome \<Rightarrow>
     (string \<times> string) list option \<times> (transport_exception + json option)
       \<times> StreamableHTTPTransport" where
  "send tr msg outcome =
     (if \<not> http_client tr \<or> \<not> connected tr then (None, Inl SessionError, tr)
      else if closing tr then (None, Inl SessionError, tr)
      else case send_internal tr msg outcome of
             (hdrs, res, tr') \<Rightarrow> (Some hdrs, res, tr'))"

text \<open>
  A run of sends on one transport: each message with what the server does with it. The
  result lists the headers of every send, in order, and the transport at the end.
\<close>

fun run_sends ::
  "StreamableHTTPTransport \<Rightarrow> (pydict \<times> post_outcome) list \<Rightarrow>
     (string \<times> string) list option list \<times> StreamableHTTPTransport" where
  "run_sends tr [] = ([], tr)"
| "run_sends tr ((msg, outcome) # rest) =
     (case send tr msg outcome of
        (hdrs, res, tr') \<Rightarrow>
          (case run_sends tr' rest of (hs, tr'') \<Rightarrow> (hdrs # hs, tr'')))"

definition carries_session :: "post_outcome \<Rightarrow> bool" where
  "carries_session outcome =
     (case outcome of PostResponse response \<Rightarrow> session_header response \<noteq> None | _ \<Rightarrow> False)"

definition transport_ready :: "StreamableHTTPTransport \<Rightarrow> bool" where
  "transport_ready tr = (http_client tr \<and> connected tr \<and> \<not> closing tr)"

text \<open>Sample values: a connected transport, and a bare \<open>202 Accepted\<close> response.\<close>

definition ready_transport :: StreamableHTTPTransport where
  "ready_transport =
     snd (connect (transport_init (default_config ''https://example.com/mcp'')) True)"

definition accepted :: "string option \<Rightarrow> http_response" where
  "accepted sid = \<lparr>status_code = 202, session_header = sid, content_type = [], body = None\<rparr>"

definition BASE_HEADERS :: "(string \<times> string) list" where
  "BASE_HEADERS =
     [(''Content-Type'', ''application/json''),
      (''Accept'', ''application/json, text/event-stream'')]"

section \<open>Protocol errors and messages (mcp/protocol/errors.py, mcp/protocol/messages.py)\<close>

definition INTERNAL_ERROR :: int where "INTERNAL_ERROR = - 32603"
definition REQUEST_TIMEOUT :: int where "REQUEST_TIMEOUT = - 32001"
definition REQUEST_CANCELLED :: int where "REQUEST_CANCELLED = - 32002"

text \<open>
  \<open>MCPError\<close> is a dataclass without type checks: built from a server's error object, its
  fields hold whatever the object held.
\<close>

record MCPError =
  mcp_code :: json
  mcp_message :: json
  mcp_data :: json

definition get_default :: "pydict \<Rightarrow> string \<Rightarrow> json \<Rightarrow> json" where
  "get_default d k dflt = (case map_of d k of None \<Rightarrow> dflt | Some v \<Rightarrow> v)"

definition MCPError_from_dict :: "pydict \<Rightarrow> MCPError" where
  "MCPError_from_dict err =
     \<lparr>mcp_code = get_default err ''code'' (JInt INTERNAL_ERROR),
      mcp_message = get_default err ''message'' (JStr ''Unknown error''),
      mcp_data = dict_get err ''data''\<rparr>"

text \<open>
  Python's \<open>str\<close> on a wire value is a library function; where the code formats a number it
  is the parameter \<open>str_of\<close>.
\<close>

definition MCPError_timeout :: "(json \<Rightarrow> string) \<Rightarrow> pyfloat \<Rightarrow> MCPError" where
  "MCPError_timeout str_of timeout_seconds =
     \<lparr>mcp_code = JInt REQUEST_TIMEOUT,
      mcp_message = JStr (''Request timed out after '' @ str_of (JFloat timeout_seconds) @ ''s''),
      mcp_data = JObj [(''timeout'', JFloat timeout_seconds)]\<rparr>"

text \<open>\<open>reason or default\<close>: a reason that is \<open>None\<close> or empty gives the default.\<close>

definition reason_or :: "string option \<Rightarrow> string \<Rightarrow> string" where
  "reason_or reason dflt = (case reason of None \<Rightarrow> dflt | Some r \<Rightarrow> if r = [] then dflt else r)"

definition MCPError_cancelled :: "string option \<Rightarrow> MCPError" where
  "MCPError_cancelled reason =
     \<lparr>mcp_code = JInt REQUEST_CANCELLED,
      mcp_message = JStr (reason_or reason ''Request cancelled''),
      mcp_data = JNull\<rparr>"

text \<open>
  The exceptions of the client and of task execution. \<open>TypeError\<close> stands for the
  \<open>TypeError\<close> or \<open>AttributeError\<close> Python raises when a wire value has the wrong shape;
  \<open>OtherException\<close> is any other subclass of \<open>Exception\<close>, with its \<open>str\<close>;
  \<open>OtherBaseException\<close> is a \<open>BaseException\<close> outside \<open>Exception\<close>, such as
  \<open>KeyboardInterrupt\<close>.
\<close>

datatype py_exception =
    MCPErr MCPError
  | TransportErr transport_exception
  | AsyncioTimeoutError
  | CancelledError
  | TypeError
  | CancellationError string
  | IncompatibleProtocolError json
  | TaskTransitionError task_exception
  | TooManyTasksError
  | OtherException string
  | OtherBaseException string

definition JSONRPCRequest_to_dict :: "string \<Rightarrow> pydict option \<Rightarrow> string \<Rightarrow> pydict" where
  "JSONRPCRequest_to_dict method params ident =
     (let msg = [(''jsonrpc'', JStr ''2.0''), (''method'', JStr method), (''id'', JStr ident)]
      in case params of Some p \<Rightarrow> dict_set msg ''params'' (JObj p) | None \<Rightarrow> msg)"

definition JSONRPCNotification_to_dict :: "string \<Rightarrow> pydict option \<Rightarrow> pydict" where
  "JSONRPCNotification_to_dict method params =
     (let msg = [(''jsonrpc'', JStr ''2.0''), (''method'', JStr method)]
      in case params of Some p \<Rightarrow> dict_set msg ''params'' (JObj p) | None \<Rightarrow> msg)"

record JSONRPCError =
  rpc_code :: json
  rpc_message :: json
  rpc_data :: json

definition JSONRPCError_from_dict :: "pydict \<Rightarrow> JSONRPCError" where
  "JSONRPCError_from_dict d =
     \<lparr>rpc_code = get_default d ''code'' (JInt (- 32603)),
      rpc_message = get_default d ''message'' (JStr ''Unknown error''),
      rpc_data = dict_get d ''data''\<rparr>"

definition JSONRPCError_to_dict :: "JSONRPCError \<Rightarrow> pydict" where
  "JSONRPCError_to_dict e =
     (let err = [(''code'', rpc_code e), (''message'', rpc_message e)]
      in if rpc_data e \<noteq> JNull then dict_set err ''data'' (rpc_data e) else err)"

record JSONRPCResponse =
  response_id :: json
  response_result :: json
  response_error :: "JSONRPCError option"

definition JSONRPCResponse_from_dict :: "pydict \<Rightarrow> py_exception + JSONRPCResponse" where
  "JSONRPCResponse_from_dict d =
     (if has_key d ''error''
      then (case dict_get d ''error'' of
              JObj e \<Rightarrow>
                Inr \<lparr>response_id = dict_get d ''id'', response_result = dict_get d ''result'',
                     response_error = Some (JSONRPCError_from_dict e)\<rparr>
            | _ \<Rightarrow> Inl TypeError)
      else Inr \<lparr>response_id = dict_get d ''id'', response_result = dict_get d ''result'',
                response_error = None\<rparr>)"

definition is_request :: "pydict \<Rightarrow> bool" where
  "is_request d = (has_key d ''id'' \<and> has_key d ''method'')"

definition is_notification :: "pydict \<Rightarrow> bool" where
  "is_notification d = (has_key d ''method'' \<and> \<not> has_key d ''id'')"

definition is_response :: "pydict \<Rightarrow> bool" where
  "is_response d = (has_key d ''id'' \<and> \<not> has_key d ''method'')"

section \<open>Protocol client (mcp/protocol/client.py)\<close>

text \<open>
  A future is an object shared by the pending-request table and the coroutine that awaits
  it, so futures live in a store, \<open>futures\<close>, and the table maps a request id to an address.
  The transport is abstract: \<open>sent\<close> lists the messages handed to \<open>transport.send\<close>, and
  what each send does is an input.
\<close>

datatype future = FuturePending | FutureResult json | FutureException py_exception

record MCPClient =
  request_timeout :: pyfloat
  max_pending_requests :: int
  client_state :: ProtocolStateMachine
  pending_requests :: "(string \<times> nat) list"
  futures :: "nat \<Rightarrow> future"
  next_future :: nat
  client_closing :: bool
  sent :: "pydict list"

definition client_init :: "pyfloat \<Rightarrow> int \<Rightarrow> MCPClient" where
  "client_init rt maxp =
     \<lparr>request_timeout = rt, max_pending_requests = maxp, client_state = psm_init DISCONNECTED,
      pending_requests = [], futures = (\<lambda>_. FuturePending), next_future = 0,
      client_closing = False, sent = []\<rparr>"

datatype send_result =
    SendReturned "pydict option"
  | SendRaised transport_exception
  | SendCancelled

definition future_done :: "future \<Rightarrow> bool" where
  "future_done f = (f \<noteq> FuturePending)"

text \<open>\<open>str(response.id)\<close>: a string is itself; any other value goes through \<open>str\<close>.\<close>

definition id_str :: "(json \<Rightarrow> string) \<Rightarrow> json \<Rightarrow> string" where
  "id_str str_of j = (case j of JStr s \<Rightarrow> s | _ \<Rightarrow> str_of j)"

definition handle_response ::
  "(json \<Rightarrow> string) \<Rightarrow> MCPClient \<Rightarrow> pydict \<Rightarrow> py_exception option \<times> MCPClient" where
  "handle_response str_of c msg =
     (case JSONRPCResponse_from_dict msg of
        Inl e \<Rightarrow> (Some e, c)
      | Inr response \<Rightarrow>
          if response_id response = JNull then (None, c)
          else
            (case map_of (pending_requests c) (id_str str_of (response_id response)) of
               None \<Rightarrow> (None, c)
             | Some a \<Rightarrow>
                 if future_done (futures c a) then (None, c)
                 else
                   (case response_error response of
                      Some err \<Rightarrow>
                        (None, c\<lparr>futures := (futures c)
                                  (a := FutureException
                                          (MCPErr (MCPError_from_dict (JSONRPCError_to_dict err))))\<rparr>)
                    | None \<Rightarrow>
                        (None, c\<lparr>futures := (futures c)
                                  (a := FutureResult (response_result response))\<rparr>))))"

text \<open>
  \<open>notify\<close>: the result is the exception raised, if any. The notification is handed to the
  transport before the transport can fail.
\<close>

definition notify ::
  "MCPClient \<Rightarrow> string \<Rightarrow> pydict option \<Rightarrow> send_result \<Rightarrow> py_exception option \<times> MCPClient" where
  "notify c method params send_res =
     (if \<not> psm_is_connected (client_state c)
      then (Some (MCPErr \<lparr>mcp_code = JInt INTERNAL_ERROR,
                           mcp_message = JStr ''Client not connected'', mcp_data = JNull\<rparr>), c)
      else
        let c1 = c\<lparr>sent := sent c @ [JSONRPCNotification_to_dict method params]\<rparr>
        in case send_res of
             SendReturned r \<Rightarrow> (None, c1)
           | SendRaised e \<Rightarrow> (Some (TransportErr e), c1)
           | SendCancelled \<Rightarrow> (Some CancelledError, c1))"

definition opt_str :: "string option \<Rightarrow> json" where
  "opt_str s = (case s of None \<Rightarrow> JNull | Some v \<Rightarrow> JStr v)"

definition cancel_request ::
  "MCPClient \<Rightarrow> string \<Rightarrow> string option \<Rightarrow> send_result \<Rightarrow> py_exception option \<times> MCPClient" where
  "cancel_request c request_id reason send_res =
     (case notify c ''notifications/cancelled''
             (Some [(''requestId'', JStr request_id), (''reason'', opt_str reason)]) send_res of
        (Some e, c1) \<Rightarrow> (Some e, c1)
      | (None, c1) \<Rightarrow>
          (case map_of (pending_requests c1) request_id of
             None \<Rightarrow> (None, c1)
           | Some a \<Rightarrow>
               let c2 = c1\<lparr>pending_requests := AList.delete request_id (pending_requests c1)\<rparr>
               in if \<not> future_done (futures c2 a)
                  then (None, c2\<lparr>futures := (futures c2)
                          (a := FutureException
                             (MCPErr \<lparr>mcp_code = JInt REQUEST_CANCELLED,
                                      mcp_message = JStr (reason_or reason ''Request cancelled''),
                                      mcp_data = JNull\<rparr>))\<rparr>)
                  else (None, c2)))"

text \<open>\<open>cancel_server_request\<close> of mcp/utilities/cancellation.py.\<close>

definition cancel_server_request ::
  "MCPClient \<Rightarrow> string \<Rightarrow> string option \<Rightarrow> send_result \<Rightarrow> py_exception option \<times> MCPClient" where
  "cancel_server_request c request_id reason send_res =
     (if request_id = ''initialize''
      then (Some (CancellationError ''Cannot cancel initialize request''), c)
      else
        let params = [(''requestId'', JStr request_id)];
            params' = (case reason of Some r \<Rightarrow> dict_set params ''reason'' (JStr r)
                       | None \<Rightarrow> params)
        in notify c ''notifications/cancelled'' (Some params') send_res)"

definition mark_ready :: "MCPClient \<Rightarrow> MCPClient" where
  "mark_ready c =
     (if psm_state (client_state c) = INITIALIZING
      then c\<lparr>client_state := snd (psm_transition (client_state c) READY)\<rparr>
      else c)"

text \<open>
  \<open>close\<close>: every pending future that is not done fails with REQUEST_CANCELLED
  ("Client closing") and the table is cleared. \<open>disconnect_res\<close> is the exception
  \<open>transport.disconnect\<close> raises, if any.
\<close>

definition fail_pending :: "MCPClient \<Rightarrow> nat \<Rightarrow> future" where
  "fail_pending c =
     foldl (\<lambda>fs (k, a).
              if \<not> future_done (fs a)
              then fs(a := FutureException (MCPErr (MCPError_cancelled (Some ''Client closing''))))
              else fs)
           (futures c) (pending_requests c)"

definition close ::
  "MCPClient \<Rightarrow> transport_exception option \<Rightarrow> py_exception option \<times> MCPClient" where
  "close c disconnect_res =
     (if client_closing c then (None, c)
      else
        let c1 = c\<lparr>client_closing := True\<rparr>;
            c2 = (if psm_state (client_state c1) = READY
                  then c1\<lparr>client_state := snd (psm_transition (client_state c1) CLOSING)\<rparr>
                  else if psm_state (client_state c1) \<notin> {CLOSED, DISCONNECTED}
                  then c1\<lparr>client_state := force_state (client_state c1) CLOSING\<rparr>
                  else c1);
            c3 = c2\<lparr>futures := fail_pending c2, pending_requests := []\<rparr>
        in case disconnect_res of
             Some e \<Rightarrow> (Some (TransportErr e), c3)
           | None \<Rightarrow>
               (case psm_transition (client_state c3) CLOSED of
                  (None, m) \<Rightarrow> (None, c3\<lparr>client_state := m\<rparr>)
                | (Some e, m) \<Rightarrow> (None, c3\<lparr>client_state := force_state (client_state c3) CLOSED\<rparr>)))"

text \<open>
  What can happen while \<open>request\<close> awaits its future: the receive loop delivers a message
  (a response goes to \<open>_handle_response\<close>, whose exceptions the loop swallows; a request
  or notification of the server goes to the application's handlers, which do not touch the
  futures), another
  coroutine calls \<open>cancel_request\<close> or \<open>close\<close>, or the awaiting coroutine is itself
  cancelled. The list holds what happens before the deadline; when it is used up and the
  future is still pending, \<open>wait_for\<close> raises \<open>asyncio.TimeoutError\<close>.
\<close>

datatype wait_event =
    MessageReceived pydict
  | CancelRequestCalled string "string option" send_result
  | CloseCalled "transport_exception option"
  | CallerCancelled

fun apply_event :: "(json \<Rightarrow> string) \<Rightarrow> MCPClient \<Rightarrow> wait_event \<Rightarrow> MCPClient" where
  "apply_event str_of c (MessageReceived msg) =
     (if client_closing c then c
      else if is_request msg then c
      else if is_response msg then snd (handle_response str_of c msg)
      else c)"
| "apply_event str_of c (CancelRequestCalled request_id reason send_res) =
     snd (cancel_request c request_id reason send_res)"
| "apply_event str_of c (CloseCalled disconnect_res) = snd (close c disconnect_res)"
| "apply_event str_of c CallerCancelled = c"

fun await_future ::
  "(json \<Rightarrow> string) \<Rightarrow> MCPClient \<Rightarrow> nat \<Rightarrow> wait_event list \<Rightarrow> (py_exception + json) \<times> MCPClient" where
  "await_future str_of c a [] =
     (case futures c a of
        FutureResult r \<Rightarrow> (Inr r, c)
      | FutureException e \<Rightarrow> (Inl e, c)
      | FuturePending \<Rightarrow> (Inl AsyncioTimeoutError, c))"
| "await_future str_of c a (ev # rest) =
     (case futures c a of
        FutureResult r \<Rightarrow> (Inr r, c)
      | FutureException e \<Rightarrow> (Inl e, c)
      | FuturePending \<Rightarrow>
          if ev = CallerCancelled then (Inl CancelledError, c)
          else await_future str_of (apply_event str_of c ev) a rest)"

text \<open>
  \<open>request\<close>. \<open>rid\<close> is the fresh request id (a UUID in the source), \<open>send_res\<close> what
  \<open>transport.send\<close> does with the request, \<open>evs\<close> what happens during the wait. The
  result is the value returned or the exception raised, with the client afterwards.
\<close>

definition request ::
  "(json \<Rightarrow> string) \<Rightarrow> MCPClient \<Rightarrow> string \<Rightarrow> pydict option \<Rightarrow> pyfloat option \<Rightarrow>
     string \<Rightarrow> send_result \<Rightarrow> wait_event list \<Rightarrow> (py_exception + json) \<times> MCPClient" where
  "request str_of c method params tmo rid send_res evs =
     (if \<not> psm_is_connected (client_state c)
      then (Inl (MCPErr \<lparr>mcp_code = JInt INTERNAL_ERROR,
                          mcp_message = JStr ''Client not connected'', mcp_data = JNull\<rparr>), c)
      else if int (length (pending_requests c)) \<ge> max_pending_requests c
      then (Inl (MCPErr \<lparr>mcp_code = JInt INTERNAL_ERROR,
                          mcp_message = JStr ''Too many pending requests'', mcp_data = JNull\<rparr>), c)
      else
        let a = next_future c;
            c1 = c\<lparr>futures := (futures c)(a := FuturePending), next_future := a + 1,
                   pending_requests := AList.update rid a (pending_requests c)\<rparr>;
            effective_timeout = (case tmo of Some t \<Rightarrow> t | None \<Rightarrow> request_timeout c);
            c2 = c1\<lparr>sent := sent c1 @ [JSONRPCRequest_to_dict method params rid]\<rparr>;
            body_res =
              (case send_res of
                 SendRaised e \<Rightarrow> (Inl (TransportErr e), c2)
               | SendCancelled \<Rightarrow> (Inl CancelledError, c2)
               | SendReturned None \<Rightarrow> await_future str_of c2 a evs
               | SendReturned (Some immediate_response) \<Rightarrow>
                   (case handle_response str_of c2 immediate_response of
                      (Some e, c3) \<Rightarrow> (Inl e, c3)
                    | (None, c3) \<Rightarrow> await_future str_of c3 a evs));
            outcome =
              (case fst body_res of
                 Inl AsyncioTimeoutError \<Rightarrow> Inl (MCPErr (MCPError_timeout str_of effective_timeout))
               | Inl CancelledError \<Rightarrow> Inl (MCPErr (MCPError_cancelled (Some ''Request cancelled'')))
               | other \<Rightarrow> other);
            c4 = snd body_res
        in (outcome, c4\<lparr>pending_requests := AList.delete rid (pending_requests c4)\<rparr>))"



text \<open>A client after \<open>connect()\<close>: the handshake has not run yet.\<close>

definition connected_client :: MCPClient where
  "connected_client = (client_init (Finite 60) 100)\<lparr>client_state := psm_init INITIALIZING\<rparr>"

text \<open>A stand-in for \<open>str\<close> in sample runs, where nothing but strings is formatted.\<close>

definition sample_str :: "json \<Rightarrow> string" where
  "sample_str j = (case j of JStr s \<Rightarrow> s | _ \<Rightarrow> ''?'')"








definition effective_timeout :: "MCPClient \<Rightarrow> pyfloat option \<Rightarrow> pyfloat" where
  "effective_timeout c tmo = (case tmo of Some t \<Rightarrow> t | None \<Rightarrow> request_timeout c)"

section \<open>Client capabilities (mcp/capabilities/client.py)\<close>

text \<open>
  What decoding a wire dict can raise: \<open>KeyError\<close>, \<open>ValueError\<close>, and \<open>DecodeTypeError\<close>
  for the \<open>TypeError\<close> or \<open>AttributeError\<close> of a member of the wrong shape.
  \<open>OutsideAnnotation\<close> is no exception of the source: a dataclass stores whatever it is
  given, and this marks a wire value outside the annotated type of its field, which the
  typed records here cannot hold.
\<close>

datatype decode_exception =
    KeyError string
  | DecodeValueError
  | DecodeTypeError
  | OutsideAnnotation

record RootsCapability =
  list_changed :: bool

record ElicitationCapability =
  elicit_form :: bool
  elicit_url :: bool

record TasksCapability =
  tasks_list :: bool
  tasks_cancel :: bool
  tasks_requests :: pydict

text \<open>\<open>SamplingCapability\<close> has no fields: it is present or absent.\<close>

record ClientCapabilities =
  sampling :: "unit option"
  roots :: "RootsCapability option"
  elicitation :: "ElicitationCapability option"
  tasks :: "TasksCapability option"
  experimental :: "pydict option"

definition ClientCapabilities_to_dict :: "ClientCapabilities \<Rightarrow> pydict" where
  "ClientCapabilities_to_dict x =
     (let caps0 = [];
          caps1 = (case sampling x of Some u \<Rightarrow> dict_set caps0 ''sampling'' (JObj [])
                   | None \<Rightarrow> caps0);
          caps2 = (case roots x of
                     Some r \<Rightarrow> dict_set caps1 ''roots'' (JObj [(''listChanged'', JBool (list_changed r))])
                   | None \<Rightarrow> caps1);
          caps3 = (case elicitation x of
                     Some e \<Rightarrow>
                       let elicit0 = [];
                           elicit1 = (if elicit_form e then dict_set elicit0 ''form'' (JObj [])
                                      else elicit0);
                           elicit2 = (if elicit_url e then dict_set elicit1 ''url'' (JObj [])
                                      else elicit1)
                       in dict_set caps2 ''elicitation'' (JObj elicit2)
                   | None \<Rightarrow> caps2);
          caps4 = (case tasks x of
                     Some t \<Rightarrow>
                       let td0 = [];
                           td1 = (if tasks_list t then dict_set td0 ''list'' (JObj []) else td0);
                           td2 = (if tasks_cancel t then dict_set td1 ''cancel'' (JObj []) else td1);
                           td3 = (if tasks_requests t \<noteq> []
                                  then dict_set td2 ''requests'' (JObj (tasks_requests t)) else td2)
                       in dict_set caps3 ''tasks'' (JObj td3)
                   | None \<Rightarrow> caps3);
          caps5 = (case experimental x of
                     Some ex \<Rightarrow> dict_set caps4 ''experimental'' (JObj ex)
                   | None \<Rightarrow> caps4)
      in caps5)"

text \<open>
  \<open>from_dict\<close> reads each member with \<open>data.get(name, {})\<close> and calls \<open>.get\<close> or \<open>in\<close>
  on it. \<open>.get\<close> raises unless the member is an object; \<open>in\<close> also works on a string
  (substring) and on a list (membership).
\<close>

definition decode_roots :: "pydict \<Rightarrow> decode_exception + RootsCapability option" where
  "decode_roots d =
     (if has_key d ''roots''
      then (case get_default d ''roots'' (JObj []) of
              JObj r \<Rightarrow>
                (case get_default r ''listChanged'' (JBool True) of
                   JBool b \<Rightarrow> Inr (Some \<lparr>list_changed = b\<rparr>)
                 | _ \<Rightarrow> Inl OutsideAnnotation)
            | _ \<Rightarrow> Inl DecodeTypeError)
      else Inr None)"

definition decode_elicitation :: "pydict \<Rightarrow> decode_exception + ElicitationCapability option" where
  "decode_elicitation d =
     (if has_key d ''elicitation''
      then (case get_default d ''elicitation'' (JObj []) of
              JObj e \<Rightarrow> Inr (Some \<lparr>elicit_form = has_key e ''form'', elicit_url = has_key e ''url''\<rparr>)
            | JStr s \<Rightarrow> Inr (Some \<lparr>elicit_form = sublist ''form'' s, elicit_url = sublist ''url'' s\<rparr>)
            | JList l \<Rightarrow>
                Inr (Some \<lparr>elicit_form = (JStr ''form'' \<in> set l), elicit_url = (JStr ''url'' \<in> set l)\<rparr>)
            | _ \<Rightarrow> Inl DecodeTypeError)
      else Inr None)"

definition decode_tasks :: "pydict \<Rightarrow> decode_exception + TasksCapability option" where
  "decode_tasks d =
     (if has_key d ''tasks''
      then (case get_default d ''tasks'' (JObj []) of
              JObj t \<Rightarrow>
                (case get_default t ''requests'' (JObj []) of
                   JObj reqs \<Rightarrow>
                     Inr (Some \<lparr>tasks_list = has_key t ''list'', tasks_cancel = has_key t ''cancel'',
                                 tasks_requests = reqs\<rparr>)
                 | _ \<Rightarrow> Inl OutsideAnnotation)
            | _ \<Rightarrow> Inl DecodeTypeError)
      else Inr None)"

definition decode_experimental :: "pydict \<Rightarrow> decode_exception + pydict option" where
  "decode_experimental d =
     (case dict_get d ''experimental'' of
        JNull \<Rightarrow> Inr None
      | JObj ex \<Rightarrow> Inr (Some ex)
      | _ \<Rightarrow> Inl OutsideAnnotation)"

definition ClientCapabilities_from_dict :: "pydict \<Rightarrow> decode_exception + ClientCapabilities" where
  "ClientCapabilities_from_dict d =
     (case decode_roots d of
        Inl e \<Rightarrow> Inl e
      | Inr r \<Rightarrow>
     (case decode_elicitation d of
        Inl e \<Rightarrow> Inl e
      | Inr el \<Rightarrow>
     (case decode_tasks d of
        Inl e \<Rightarrow> Inl e
      | Inr t \<Rightarrow>
     (case decode_experimental d of
        Inl e \<Rightarrow> Inl e
      | Inr ex \<Rightarrow>
          Inr \<lparr>sampling = (if has_key d ''sampling'' then Some () else None),
               roots = r, elicitation = el, tasks = t, experimental = ex\<rparr>))))"

definition DEFAULT_CLIENT_CAPABILITIES :: ClientCapabilities where
  "DEFAULT_CLIENT_CAPABILITIES =
     \<lparr>sampling = Some (), roots = Some \<lparr>list_changed = True\<rparr>,
      elicitation = Some \<lparr>elicit_form = True, elicit_url = True\<rparr>,
      tasks = Some \<lparr>tasks_list = True, tasks_cancel = True, tasks_requests = []\<rparr>,
      experimental = None\<rparr>"

section \<open>Task wire format (mcp/tasks/state.py)\<close>

text \<open>
  \<open>datetime.isoformat\<close> and \<open>datetime.fromisoformat\<close> are library functions; the wire
  format takes them as the parameters \<open>isoformat\<close> and \<open>fromisoformat\<close> (\<open>None\<close> when the
  text does not parse, a \<open>ValueError\<close> in Python).
\<close>

fun TaskState_value :: "TaskState \<Rightarrow> string" where
  "TaskState_value PENDING = ''pending''"
| "TaskState_value RUNNING = ''running''"
| "TaskState_value COMPLETED = ''completed''"
| "TaskState_value FAILED = ''failed''"
| "TaskState_value CANCELLED = ''cancelled''"

definition TaskState_of_value :: "string \<Rightarrow> TaskState option" where
  "TaskState_of_value s =
     (if s = ''pending'' then Some PENDING
      else if s = ''running'' then Some RUNNING
      else if s = ''completed'' then Some COMPLETED
      else if s = ''failed'' then Some FAILED
      else if s = ''cancelled'' then Some CANCELLED
      else None)"

definition TaskProgress_to_dict :: "TaskProgress \<Rightarrow> pydict" where
  "TaskProgress_to_dict p =
     (let result = [(''current'', JInt (progress_current p))];
          result1 = (case progress_total p of
                       Some tot \<Rightarrow> dict_set result ''total'' (JInt tot) | None \<Rightarrow> result);
          result2 = (case progress_message p of
                       Some m \<Rightarrow> dict_set result1 ''message'' (JStr m) | None \<Rightarrow> result1)
      in result2)"

definition TaskError_to_dict :: "TaskError \<Rightarrow> pydict" where
  "TaskError_to_dict e =
     (let result = [(''code'', JInt (error_code e)), (''message'', JStr (error_message e))]
      in if error_data e \<noteq> JNull then dict_set result ''data'' (error_data e) else result)"

definition Task_to_dict :: "('dt \<Rightarrow> string) \<Rightarrow> 'dt Task_of \<Rightarrow> pydict" where
  "Task_to_dict isoformat t =
     (let r0 = [(''id'', JStr (task_id t)), (''type'', JStr (task_type t)),
                (''state'', JStr (TaskState_value (task_state t))),
                (''createdAt'', JStr (isoformat (created_at t))),
                (''updatedAt'', JStr (isoformat (updated_at t)))];
          r1 = (case task_progress t of
                  Some p \<Rightarrow> dict_set r0 ''progress'' (JObj (TaskProgress_to_dict p))
                | None \<Rightarrow> r0);
          r2 = (if task_result t \<noteq> JNull then dict_set r1 ''result'' (task_result t) else r1);
          r3 = (case task_error t of
                  Some e \<Rightarrow> dict_set r2 ''error'' (JObj (TaskError_to_dict e))
                | None \<Rightarrow> r2);
          r4 = (case started_at t of
                  Some d \<Rightarrow> dict_set r3 ''startedAt'' (JStr (isoformat d))
                | None \<Rightarrow> r3);
          r5 = (case completed_at t of
                  Some d \<Rightarrow> dict_set r4 ''completedAt'' (JStr (isoformat d))
                | None \<Rightarrow> r4);
          r6 = (if metadata t \<noteq> [] then dict_set r5 ''_meta'' (JObj (metadata t)) else r5)
      in r6)"

text \<open>Sequencing of steps that may raise: the first exception ends the function.\<close>

definition and_then :: "'e + 'a \<Rightarrow> ('a \<Rightarrow> 'e + 'b) \<Rightarrow> 'e + 'b" where
  "and_then r f = (case r of Inl e \<Rightarrow> Inl e | Inr v \<Rightarrow> f v)"

definition decode_id :: "pydict \<Rightarrow> decode_exception + string" where
  "decode_id d =
     (case map_of d ''id'' of
        None \<Rightarrow> Inl (KeyError ''id'')
      | Some (JStr s) \<Rightarrow> Inr s
      | Some _ \<Rightarrow> Inl OutsideAnnotation)"

definition decode_type :: "pydict \<Rightarrow> decode_exception + string" where
  "decode_type d =
     (case get_default d ''type'' (JStr ''tools/call'') of
        JStr s \<Rightarrow> Inr s
      | _ \<Rightarrow> Inl OutsideAnnotation)"

definition decode_state :: "pydict \<Rightarrow> decode_exception + TaskState" where
  "decode_state d =
     (case map_of d ''state'' of
        None \<Rightarrow> Inl (KeyError ''state'')
      | Some (JStr s) \<Rightarrow>
          (case TaskState_of_value s of Some st \<Rightarrow> Inr st | None \<Rightarrow> Inl DecodeValueError)
      | Some _ \<Rightarrow> Inl DecodeValueError)"

definition decode_meta :: "pydict \<Rightarrow> decode_exception + pydict" where
  "decode_meta d =
     (case get_default d ''_meta'' (JObj []) of
        JObj m \<Rightarrow> Inr m
      | _ \<Rightarrow> Inl OutsideAnnotation)"

definition decode_datetime ::
  "(string \<Rightarrow> 'dt option) \<Rightarrow> pydict \<Rightarrow> string \<Rightarrow> decode_exception + 'dt option" where
  "decode_datetime fromisoformat d k =
     (if has_key d k
      then (case dict_get d k of
              JStr s \<Rightarrow>
                (case fromisoformat s of Some dt \<Rightarrow> Inr (Some dt) | None \<Rightarrow> Inl DecodeValueError)
            | _ \<Rightarrow> Inl DecodeTypeError)
      else Inr None)"

definition decode_opt_int :: "json \<Rightarrow> decode_exception + int option" where
  "decode_opt_int j =
     (case j of JNull \<Rightarrow> Inr None | JInt n \<Rightarrow> Inr (Some n) | _ \<Rightarrow> Inl OutsideAnnotation)"

definition decode_opt_str :: "json \<Rightarrow> decode_exception + string option" where
  "decode_opt_str j =
     (case j of JNull \<Rightarrow> Inr None | JStr s \<Rightarrow> Inr (Some s) | _ \<Rightarrow> Inl OutsideAnnotation)"

definition decode_progress :: "pydict \<Rightarrow> decode_exception + TaskProgress option" where
  "decode_progress d =
     (if has_key d ''progress''
      then (case dict_get d ''progress'' of
              JObj p \<Rightarrow>
                (case map_of p ''current'' of
                   None \<Rightarrow> Inl (KeyError ''current'')
                 | Some (JInt cur) \<Rightarrow>
                     and_then (decode_opt_int (dict_get p ''total'')) (\<lambda>tot.
                     and_then (decode_opt_str (dict_get p ''message'')) (\<lambda>m.
                       Inr (Some \<lparr>progress_current = cur, progress_total = tot,
                                   progress_message = m\<rparr>)))
                 | Some _ \<Rightarrow> Inl OutsideAnnotation)
            | _ \<Rightarrow> Inl DecodeTypeError)
      else Inr None)"

definition decode_error :: "pydict \<Rightarrow> decode_exception + TaskError option" where
  "decode_error d =
     (if has_key d ''error''
      then (case dict_get d ''error'' of
              JObj e \<Rightarrow>
                (case map_of e ''code'' of
                   None \<Rightarrow> Inl (KeyError ''code'')
                 | Some (JInt c) \<Rightarrow>
                     (case map_of e ''message'' of
                        None \<Rightarrow> Inl (KeyError ''message'')
                      | Some (JStr m) \<Rightarrow>
                          Inr (Some \<lparr>error_code = c, error_message = m,
                                      error_data = dict_get e ''data''\<rparr>)
                      | Some _ \<Rightarrow> Inl OutsideAnnotation)
                 | Some _ \<Rightarrow> Inl OutsideAnnotation)
            | _ \<Rightarrow> Inl DecodeTypeError)
      else Inr None)"

text \<open>
  \<open>Task.from_dict\<close>. \<open>now1\<close> and \<open>now2\<close> are the clock readings that the constructor's
  defaults for \<open>created_at\<close> and \<open>updated_at\<close> take; they stay when the dict has no
  \<open>createdAt\<close> or \<open>updatedAt\<close>.
\<close>

definition Task_from_dict ::
  "(string \<Rightarrow> 'dt option) \<Rightarrow> 'dt \<Rightarrow> 'dt \<Rightarrow> pydict \<Rightarrow> decode_exception + 'dt Task_of" where
  "Task_from_dict fromisoformat now1 now2 d =
     and_then (decode_id d) (\<lambda>ident.
     and_then (decode_type d) (\<lambda>ty.
     and_then (decode_state d) (\<lambda>st.
     and_then (decode_meta d) (\<lambda>meta.
     and_then (decode_datetime fromisoformat d ''createdAt'') (\<lambda>created.
     and_then (decode_datetime fromisoformat d ''updatedAt'') (\<lambda>updated.
     and_then (decode_datetime fromisoformat d ''startedAt'') (\<lambda>started.
     and_then (decode_datetime fromisoformat d ''completedAt'') (\<lambda>completed.
     and_then (decode_progress d) (\<lambda>prog.
     and_then (decode_error d) (\<lambda>err.
       Inr \<lparr>task_id = ident, task_type = ty, task_state = st, task_progress = prog,
            task_result = dict_get d ''result'', task_error = err,
            created_at = (case created of Some c \<Rightarrow> c | None \<Rightarrow> now1),
            updated_at = (case updated of Some u \<Rightarrow> u | None \<Rightarrow> now2),
            started_at = started, completed_at = completed, metadata = meta\<rparr>))))))))))"

section \<open>Task manager (mcp/tasks/manager.py)\<close>

record TaskConfig =
  default_timeout :: pyfloat
  completed_ttl :: pyfloat
  max_concurrent :: int
  cleanup_interval :: pyfloat
  persistence_enabled :: bool

text \<open>
  The manager's table holds the task objects; an executor handle is kept per task id. The
  state-change callback belongs to the application: \<open>on_state_change\<close> says whether one is
  registered, and \<open>state_changes\<close> records its invocations. An \<open>Exception\<close> it raises is
  logged and dropped.
\<close>

record TaskManager =
  manager_config :: TaskConfig
  on_state_change :: bool
  manager_tasks :: "(string \<times> Task) list"
  executors :: "string list"
  state_changes :: "(string \<times> TaskState \<times> TaskState) list"

definition default_task_config :: TaskConfig where
  "default_task_config =
     \<lparr>default_timeout = Finite 300, completed_ttl = Finite 3600, max_concurrent = 100,
      cleanup_interval = Finite 60, persistence_enabled = False\<rparr>"

definition manager_init :: "TaskConfig \<Rightarrow> bool \<Rightarrow> TaskManager" where
  "manager_init cfg cb =
     \<lparr>manager_config = cfg, on_state_change = cb, manager_tasks = [], executors = [],
      state_changes = []\<rparr>"

text \<open>
  A task object is shared between the table and the coroutine that runs it: \<open>store_task\<close>
  writes the coroutine's view of the task back to the table, where the table still has it.
\<close>

definition store_task :: "TaskManager \<Rightarrow> Task \<Rightarrow> TaskManager" where
  "store_task mgr t =
     (if map_of (manager_tasks mgr) (task_id t) \<noteq> None
      then mgr\<lparr>manager_tasks := AList.update (task_id t) t (manager_tasks mgr)\<rparr>
      else mgr)"

text \<open>\<open>timeout or default\<close>: a timeout that is \<open>None\<close> or zero gives the default.\<close>

definition float_truthy :: "pyfloat \<Rightarrow> bool" where
  "float_truthy f = (f \<noteq> Finite 0)"

definition create_task ::
  "TaskManager \<Rightarrow> string \<Rightarrow> pydict option \<Rightarrow> pyfloat option \<Rightarrow> string \<Rightarrow> datetime \<Rightarrow> datetime
     \<Rightarrow> py_exception + (Task \<times> pyfloat \<times> TaskManager)" where
  "create_task mgr ty meta tmo uuid now1 now2 =
     (let active_count = int (length (filter is_active (map snd (manager_tasks mgr))))
      in if active_count \<ge> max_concurrent (manager_config mgr) then Inl TooManyTasksError
         else
           let t = new_task uuid ty (case meta of Some m \<Rightarrow> m | None \<Rightarrow> []) now1 now2;
               mgr1 = mgr\<lparr>manager_tasks := AList.update (task_id t) t (manager_tasks mgr)\<rparr>;
               task_timeout = (case tmo of
                                 Some v \<Rightarrow> if float_truthy v then v
                                           else default_timeout (manager_config mgr)
                               | None \<Rightarrow> default_timeout (manager_config mgr));
               mgr2 = mgr1\<lparr>executors := task_id t # removeAll (task_id t) (executors mgr1)\<rparr>
           in Inr (t, task_timeout, mgr2))"

text \<open>
  \<open>_transition_task\<close>: the exception raised, if any, the task and the manager afterwards.
\<close>

definition transition_task ::
  "TaskManager \<Rightarrow> Task \<Rightarrow> TaskState \<Rightarrow> datetime \<Rightarrow> datetime
     \<Rightarrow> py_exception option \<times> Task \<times> TaskManager" where
  "transition_task mgr t new_state now1 now2 =
     (let old_state = task_state t
      in case transition t new_state now1 now2 of
           (Some e, t') \<Rightarrow> (Some (TaskTransitionError e), t', mgr)
         | (None, t') \<Rightarrow>
             let mgr1 = store_task mgr t'
             in if on_state_change mgr1
                then (None, t',
                      mgr1\<lparr>state_changes := state_changes mgr1 @ [(task_id t', old_state, new_state)]\<rparr>)
                else (None, t', mgr1))"

text \<open>
  What \<open>asyncio.wait_for(executor(task), timeout)\<close> does. The executor returns a value or
  raises before the deadline; or the deadline passes first, \<open>wait_for\<close> cancels the executor
  and waits for it to finish, and what happens then is the executor's reply to the
  cancellation: it stops (the \<open>CancelledError\<close> passes through it) and \<open>wait_for\<close> raises
  \<open>asyncio.TimeoutError\<close>; or it catches the cancellation and returns a value, which
  \<open>wait_for\<close> returns; or it raises another exception, which \<open>wait_for\<close> raises. Or the running
  coroutine is cancelled from outside.
\<close>

datatype cancel_reply =
    Stops
  | ReturnsLate json
  | RaisesLate py_exception

datatype executor_outcome =
    Returned json
  | Raised py_exception
  | DeadlineExceeded cancel_reply
  | CancelledFromOutside

definition wait_for :: "executor_outcome \<Rightarrow> py_exception + json" where
  "wait_for outcome =
     (case outcome of
        Returned r \<Rightarrow> Inr r
      | Raised e \<Rightarrow> Inl e
      | DeadlineExceeded Stops \<Rightarrow> Inl AsyncioTimeoutError
      | DeadlineExceeded (ReturnsLate r) \<Rightarrow> Inr r
      | DeadlineExceeded (RaisesLate e) \<Rightarrow>
          if e = CancelledError then Inl AsyncioTimeoutError else Inl e
      | CancelledFromOutside \<Rightarrow> Inl CancelledError)"

text \<open>Which exceptions \<open>except Exception\<close> catches.\<close>

definition is_Exception :: "py_exception \<Rightarrow> bool" where
  "is_Exception e =
     (case e of CancelledError \<Rightarrow> False | OtherBaseException s \<Rightarrow> False | _ \<Rightarrow> True)"

text \<open>
  The \<open>except\<close> clauses of \<open>_execute_task\<close>, in their order. \<open>exc_str\<close> is \<open>str\<close> on an
  exception and \<open>str_of\<close> is \<open>str\<close> on a number. An exception raised inside a handler, or
  one that no clause catches, leaves the function.
\<close>

definition execute_handlers ::
  "(json \<Rightarrow> string) \<Rightarrow> (py_exception \<Rightarrow> string) \<Rightarrow> TaskManager \<Rightarrow> Task \<Rightarrow> pyfloat \<Rightarrow>
     py_exception \<Rightarrow> datetime \<Rightarrow> datetime \<Rightarrow> py_exception option \<times> Task \<times> TaskManager" where
  "execute_handlers str_of exc_str mgr t tmo e now1 now2 =
     (if e = AsyncioTimeoutError
      then
        let t1 = t\<lparr>task_error :=
                    Some \<lparr>error_code = - 32001,
                          error_message = ''Task timed out after '' @ str_of (JFloat tmo) @ ''s'',
                          error_data = JNull\<rparr>\<rparr>
        in transition_task (store_task mgr t1) t1 FAILED now1 now2
      else if e = CancelledError
      then
        (case transition_task mgr t CANCELLED now1 now2 of
           (x, t', mgr') \<Rightarrow> (Some CancelledError, t', mgr'))
      else if is_Exception e
      then
        let t1 = t\<lparr>task_error :=
                    Some \<lparr>error_code = - 32603, error_message = exc_str e, error_data = JNull\<rparr>\<rparr>
        in transition_task (store_task mgr t1) t1 FAILED now1 now2
      else (Some e, t, mgr))"

text \<open>
  \<open>_execute_task\<close>. The executor is handed the task object and may change it: \<open>touch\<close> is
  what it has done to the task by the time \<open>wait_for\<close> ends, and \<open>outcome\<close> is how
  \<open>wait_for\<close> ends. \<open>now1 now2\<close> are the clock readings of the transition to RUNNING and
  \<open>now3 now4\<close> those of the transition that ends the task. The result is the exception that
  leaves the coroutine, if any, the task and the manager afterwards.
\<close>

definition execute_task ::
  "(json \<Rightarrow> string) \<Rightarrow> (py_exception \<Rightarrow> string) \<Rightarrow> TaskManager \<Rightarrow> Task \<Rightarrow> (Task \<Rightarrow> Task) \<Rightarrow>
     executor_outcome \<Rightarrow> pyfloat \<Rightarrow> datetime \<Rightarrow> datetime \<Rightarrow> datetime \<Rightarrow> datetime
     \<Rightarrow> py_exception option \<times> Task \<times> TaskManager" where
  "execute_task str_of exc_str mgr t touch outcome tmo now1 now2 now3 now4 =
     (let res =
        (case transition_task mgr t RUNNING now1 now2 of
           (Some e, t1, mgr1) \<Rightarrow> execute_handlers str_of exc_str mgr1 t1 tmo e now3 now4
         | (None, t1, mgr1) \<Rightarrow>
             let t1' = touch t1;
                 mgr1' = store_task mgr1 t1'
             in (case wait_for outcome of
                   Inl e \<Rightarrow> execute_handlers str_of exc_str mgr1' t1' tmo e now3 now4
                 | Inr result \<Rightarrow>
                     let t2 = t1'\<lparr>task_result := result\<rparr>
                     in (case transition_task (store_task mgr1' t2) t2 COMPLETED now3 now4 of
                           (Some e, t3, mgr3) \<Rightarrow>
                             execute_handlers str_of exc_str mgr3 t3 tmo e now3 now4
                         | (None, t3, mgr3) \<Rightarrow> (None, t3, mgr3))))
      in case res of
           (x, t', mgr') \<Rightarrow>
             (x, t', mgr'\<lparr>executors := removeAll (task_id t) (executors mgr')\<rparr>))"

text \<open>A stand-in for \<open>str\<close> on exceptions in sample runs.\<close>

definition sample_exc_str :: "py_exception \<Rightarrow> string" where
  "sample_exc_str e = (case e of OtherException s \<Rightarrow> s | _ \<Rightarrow> ''error'')"

text \<open>A manager with the default configuration and no callback, for sample runs.\<close>

definition sample_manager :: TaskManager where
  "sample_manager = manager_init default_task_config False"

definition TIMEOUT_ERROR :: "(json \<Rightarrow> string) \<Rightarrow> pyfloat \<Rightarrow> TaskError" where
  "TIMEOUT_ERROR str_of tmo =
     \<lparr>error_code = - 32001,
      error_message = ''Task timed out after '' @ str_of (JFloat tmo) @ ''s'',
      error_data = JNull\<rparr>"

definition INTERNAL_TASK_ERROR :: "(py_exception \<Rightarrow> string) \<Rightarrow> py_exception \<Rightarrow> TaskError" where
  "INTERNAL_TASK_ERROR exc_str e =
     \<lparr>error_code = - 32603, error_message = exc_str e, error_data = JNull\<rparr>"

section \<open>Capability negotiation (mcp/capabilities/server.py, mcp/capabilities/negotiation.py)\<close>

text \<open>
  What the server declares is parsed without type checks, so the fields read with \<open>.get\<close>
  hold wire values. Parsing raises (\<open>TypeError\<close> here, for Python's \<open>TypeError\<close> or
  \<open>AttributeError\<close>) when a member that must be an object is something else.
\<close>

record ServerInfo =
  server_name :: json
  server_version :: json

record ServerToolsCapability =
  tools_list_changed :: json

record ServerResourcesCapability =
  resources_subscribe :: json
  resources_list_changed :: json

record ServerPromptsCapability =
  prompts_list_changed :: json

record ServerTasksCapability =
  server_tasks_list :: bool
  server_tasks_cancel :: bool
  server_tasks_requests :: json

record ServerCapabilities =
  server_tools :: "ServerToolsCapability option"
  server_resources :: "ServerResourcesCapability option"
  server_prompts :: "ServerPromptsCapability option"
  server_tasks :: "ServerTasksCapability option"
  server_logging :: bool
  server_completions :: bool
  server_experimental :: json

definition ServerInfo_from_dict :: "json \<Rightarrow> py_exception + ServerInfo" where
  "ServerInfo_from_dict j =
     (case j of
        JObj d \<Rightarrow> Inr \<lparr>server_name = get_default d ''name'' (JStr ''unknown''),
                        server_version = get_default d ''version'' (JStr ''unknown'')\<rparr>
      | _ \<Rightarrow> Inl TypeError)"

definition parse_member :: "pydict \<Rightarrow> string \<Rightarrow> (pydict \<Rightarrow> 'a) \<Rightarrow> py_exception + 'a option" where
  "parse_member d k build =
     (if has_key d k
      then (case dict_get d k of JObj m \<Rightarrow> Inr (Some (build m)) | _ \<Rightarrow> Inl TypeError)
      else Inr None)"

definition ServerCapabilities_from_dict :: "json \<Rightarrow> py_exception + ServerCapabilities" where
  "ServerCapabilities_from_dict j =
     (case j of
        JObj d \<Rightarrow>
          and_then (parse_member d ''tools''
                      (\<lambda>m. \<lparr>tools_list_changed = get_default m ''listChanged'' (JBool False)\<rparr>))
            (\<lambda>tools.
          and_then (parse_member d ''resources''
                      (\<lambda>m. \<lparr>resources_subscribe = get_default m ''subscribe'' (JBool False),
                            resources_list_changed = get_default m ''listChanged'' (JBool False)\<rparr>))
            (\<lambda>resources.
          and_then (parse_member d ''prompts''
                      (\<lambda>m. \<lparr>prompts_list_changed = get_default m ''listChanged'' (JBool False)\<rparr>))
            (\<lambda>prompts.
          and_then (parse_member d ''tasks''
                      (\<lambda>m. \<lparr>server_tasks_list = has_key m ''list'',
                            server_tasks_cancel = has_key m ''cancel'',
                            server_tasks_requests = dict_get m ''requests''\<rparr>))
            (\<lambda>tasks.
              Inr \<lparr>server_tools = tools, server_resources = resources,
                   server_prompts = prompts, server_tasks = tasks,
                   server_logging = has_key d ''logging'',
                   server_completions = has_key d ''completions'',
                   server_experimental = dict_get d ''experimental''\<rparr>))))
      | _ \<Rightarrow> Inl TypeError)"

definition PROTOCOL_VERSION :: string where
  "PROTOCOL_VERSION = ''2025-11-25''"

definition SUPPORTED_VERSIONS :: "string list" where
  "SUPPORTED_VERSIONS = [''2025-11-25'', ''2024-11-05'']"

record ClientInfo =
  client_name :: string
  client_version :: string

definition default_client_info :: ClientInfo where
  "default_client_info = \<lparr>client_name = ''wingman'', client_version = ''0.5.0''\<rparr>"

record NegotiationResult =
  protocol_version :: json
  server_info :: ServerInfo
  server_capabilities :: ServerCapabilities
  client_capabilities :: ClientCapabilities

record CapabilityNegotiator =
  negotiator_capabilities :: ClientCapabilities
  negotiator_info :: ClientInfo
  negotiator_result :: "NegotiationResult option"

definition negotiator_init :: CapabilityNegotiator where
  "negotiator_init =
     \<lparr>negotiator_capabilities = DEFAULT_CLIENT_CAPABILITIES,
      negotiator_info = default_client_info, negotiator_result = None\<rparr>"

text \<open>
  \<open>negotiate\<close>. \<open>rid send_res evs\<close> are the inputs of the \<open>initialize\<close> request, and
  \<open>notify_res\<close> is what \<open>transport.send\<close> does with the notification that follows. The
  result is the value returned or the exception raised, the negotiator and the client.
\<close>

definition negotiate ::
  "(json \<Rightarrow> string) \<Rightarrow> CapabilityNegotiator \<Rightarrow> MCPClient \<Rightarrow> pyfloat \<Rightarrow> string \<Rightarrow> send_result \<Rightarrow>
     wait_event list \<Rightarrow> send_result
     \<Rightarrow> (py_exception + NegotiationResult) \<times> CapabilityNegotiator \<times> MCPClient" where
  "negotiate str_of neg c tmo rid send_res evs notify_res =
     (let init_params =
            [(''protocolVersion'', JStr PROTOCOL_VERSION),
             (''capabilities'', JObj (ClientCapabilities_to_dict (negotiator_capabilities neg))),
             (''clientInfo'', JObj [(''name'', JStr (client_name (negotiator_info neg))),
                                    (''version'', JStr (client_version (negotiator_info neg)))])]
      in case request str_of c ''initialize'' (Some init_params) (Some tmo) rid send_res evs of
           (Inl e, c1) \<Rightarrow> (Inl e, neg, c1)
         | (Inr (JObj response), c1) \<Rightarrow>
             let server_ver = get_default response ''protocolVersion'' (JStr [])
             in if server_ver \<notin> set (map JStr SUPPORTED_VERSIONS)
                then (Inl (IncompatibleProtocolError server_ver), neg, c1)
                else
                  (case ServerInfo_from_dict (get_default response ''serverInfo'' (JObj [])) of
                     Inl e \<Rightarrow> (Inl e, neg, c1)
                   | Inr info \<Rightarrow>
                  (case ServerCapabilities_from_dict
                          (get_default response ''capabilities'' (JObj [])) of
                     Inl e \<Rightarrow> (Inl e, neg, c1)
                   | Inr caps \<Rightarrow>
                  (case notify c1 ''initialized'' None notify_res of
                     (Some e, c2) \<Rightarrow> (Inl e, neg, c2)
                   | (None, c2) \<Rightarrow>
                       let c3 = mark_ready c2;
                           result = \<lparr>protocol_version = server_ver, server_info = info,
                                     server_capabilities = caps,
                                     client_capabilities = negotiator_capabilities neg\<rparr>
                       in (Inr result, neg\<lparr>negotiator_result := Some result\<rparr>, c3))))
         | (Inr other, c1) \<Rightarrow> (Inl TypeError, neg, c1))"

text \<open>A server's answer to \<open>initialize\<close> that names a supported protocol version.\<close>

definition initialize_response :: "string \<Rightarrow> pydict" where
  "initialize_response rid =
     [(''jsonrpc'', JStr ''2.0''), (''id'', JStr rid),
      (''result'', JObj [(''protocolVersion'', JStr ''2025-11-25''),
                         (''capabilities'', JObj [(''tools'', JObj [])]),
                         (''serverInfo'', JObj [(''name'', JStr ''srv''),
                                                (''version'', JStr ''1.0'')])])]"

definition sent_methods :: "MCPClient \<Rightarrow> json list" where
  "sent_methods c = map (\<lambda>m. dict_get m ''method'') (sent c)"

section \<open>Datetime values and their ISO text\<close>

text \<open>
  A datetime object as \<open>==\<close> and \<open>isoformat\<close> see it. A wall-clock reading is year, month,
  day, hour, minute, second and microsecond. A value is naive; or aware with a UTC offset
  in minutes (a fixed-offset \<open>tzinfo\<close> such as \<open>timezone.utc\<close>, or a named zone at a reading
  that occurs once); or it lies in a repeated interval of a named zone, where the clocks
  were set back and \<open>fold\<close> selects the offset. Python never finds a value of the last kind
  equal to a value of another zone.
\<close>

datatype wallclock = WallClock nat nat nat nat nat nat nat

datatype pydatetime =
    Naive wallclock
  | Aware wallclock int
  | Repeated string bool wallclock int

definition digit_char :: "nat \<Rightarrow> char" where
  "digit_char n = ''0123456789'' ! (n mod 10)"

definition pad2 :: "nat \<Rightarrow> string" where
  "pad2 n = [digit_char (n div 10), digit_char n]"

definition pad4 :: "nat \<Rightarrow> string" where
  "pad4 n = pad2 (n div 100) @ pad2 (n mod 100)"

definition pad6 :: "nat \<Rightarrow> string" where
  "pad6 n = pad2 (n div 10000) @ pad4 (n mod 10000)"

text \<open>
  \<open>datetime.isoformat()\<close>: date, \<open>T\<close>, time, the microseconds when they are not zero, and
  for an aware value the UTC offset as \<open>+HH:MM\<close>. Neither the zone's name nor \<open>fold\<close> is
  written.
\<close>

fun wallclock_text :: "wallclock \<Rightarrow> string" where
  "wallclock_text (WallClock y mo d h mi s us) =
     pad4 y @ ''-'' @ pad2 mo @ ''-'' @ pad2 d @ ''T'' @ pad2 h @ '':'' @ pad2 mi @ '':'' @ pad2 s
     @ (if us \<noteq> 0 then ''.'' @ pad6 us else [])"

definition offset_text :: "int \<Rightarrow> string" where
  "offset_text off =
     (if off < 0 then ''-'' else ''+'') @ pad2 (nat \<bar>off\<bar> div 60) @ '':'' @ pad2 (nat \<bar>off\<bar> mod 60)"

fun sample_isoformat :: "pydatetime \<Rightarrow> string" where
  "sample_isoformat (Naive w) = wallclock_text w"
| "sample_isoformat (Aware w off) = wallclock_text w @ offset_text off"
| "sample_isoformat (Repeated zone fd w off) = wallclock_text w @ offset_text off"

text \<open>
  \<open>datetime.fromisoformat\<close> on the texts \<open>isoformat\<close> writes: the result is naive when the
  text has no offset, and otherwise carries a fixed-offset \<open>tzinfo\<close>.
\<close>

definition digit_val :: "char \<Rightarrow> nat option" where
  "digit_val c = map_of (zip ''0123456789'' [0, 1, 2, 3, 4, 5, 6, 7, 8, 9]) c"

fun number :: "nat \<Rightarrow> string \<Rightarrow> nat option" where
  "number acc [] = Some acc"
| "number acc (c # cs) =
     (case digit_val c of None \<Rightarrow> None | Some v \<Rightarrow> number (10 * acc + v) cs)"

definition parse_offset :: "string \<Rightarrow> int option" where
  "parse_offset s =
     (if length s = 6 \<and> s ! 0 \<in> {CHR ''+'', CHR ''-''} \<and> s ! 3 = CHR '':''
      then (case (number 0 (take 2 (drop 1 s)), number 0 (drop 4 s)) of
              (Some h, Some m) \<Rightarrow>
                Some ((if s ! 0 = CHR ''-'' then - 1 else 1) * int (60 * h + m))
            | _ \<Rightarrow> None)
      else None)"

definition parse_wallclock :: "string \<Rightarrow> string \<Rightarrow> wallclock option" where
  "parse_wallclock s micros =
     (if length s = 19 \<and> s ! 4 = CHR ''-'' \<and> s ! 7 = CHR ''-'' \<and> s ! 10 = CHR ''T''
         \<and> s ! 13 = CHR '':'' \<and> s ! 16 = CHR '':''
      then (case (number 0 (take 4 s), number 0 (take 2 (drop 5 s)),
                  number 0 (take 2 (drop 8 s)), number 0 (take 2 (drop 11 s)),
                  number 0 (take 2 (drop 14 s)), number 0 (take 2 (drop 17 s)),
                  number 0 micros) of
              (Some y, Some mo, Some d, Some h, Some mi, Some sec, Some us) \<Rightarrow>
                Some (WallClock y mo d h mi sec us)
            | _ \<Rightarrow> None)
      else None)"

definition sample_fromisoformat :: "string \<Rightarrow> pydatetime option" where
  "sample_fromisoformat s =
     (let clock_part = take 19 s;
          rest = drop 19 s;
          micros = (if take 1 rest = ''.'' then take 6 (drop 1 rest) else []);
          zone_part = (if take 1 rest = ''.'' then drop 7 rest else rest)
      in if take 1 rest = ''.'' \<and> length micros \<noteq> 6 then None
         else case parse_wallclock clock_part micros of
                None \<Rightarrow> None
              | Some w \<Rightarrow>
                  if zone_part = [] then Some (Naive w)
                  else (case parse_offset zone_part of
                          None \<Rightarrow> None
                        | Some off \<Rightarrow> Some (Aware w off)))"

text \<open>
  Whether every datetime of a task comes back from its ISO text as the value it was.
\<close>

definition survives :: "('dt \<Rightarrow> string) \<Rightarrow> (string \<Rightarrow> 'dt option) \<Rightarrow> 'dt \<Rightarrow> bool" where
  "survives isoformat fromisoformat d = (fromisoformat (isoformat d) = Some d)"

definition datetimes_survive ::
  "('dt \<Rightarrow> string) \<Rightarrow> (string \<Rightarrow> 'dt option) \<Rightarrow> 'dt Task_of \<Rightarrow> bool" where
  "datetimes_survive isoformat fromisoformat t =
     (survives isoformat fromisoformat (created_at t)
      \<and> survives isoformat fromisoformat (updated_at t)
      \<and> (case started_at t of None \<Rightarrow> True | Some d \<Rightarrow> survives isoformat fromisoformat d)
      \<and> (case completed_at t of None \<Rightarrow> True | Some d \<Rightarrow> survives isoformat fromisoformat d))"

text \<open>
  Sample tasks: one stamped in UTC, as the task manager creates them, and one whose
  \<open>created_at\<close> is 2020-11-01 01:30 in America/New_York, a reading that occurs twice.
\<close>

definition utc_task :: "pydatetime Task_of" where
  "utc_task =
     \<lparr>task_id = ''t1'', task_type = ''tools/call'', task_state = RUNNING, task_progress = None,
      task_result = JNull, task_error = None,
      created_at = Aware (WallClock 2026 11 4 17 52 0 0) 0,
      updated_at = Aware (WallClock 2026 11 4 17 52 1 250000) 0,
      started_at = Some (Aware (WallClock 2026 11 4 17 52 1 250001) 0),
      completed_at = None, metadata = [(''k'', JInt 1)]\<rparr>"

definition new_york_task :: "pydatetime Task_of" where
  "new_york_task =
     utc_task\<lparr>created_at :=
                Repeated ''America/New_York'' False (WallClock 2020 11 1 1 30 0 0) (- 240)\<rparr>"

text \<open>
  Sample values: the task and the manager that \<open>create_task\<close> leaves behind, an executor
  that does not touch its task, and one that completes the task itself by calling
  \<open>task.transition\<close>.
\<close>

definition sample_task :: Task where
  "sample_task = new_task ''t1'' ''tools/call'' [] 1 2"

definition created_manager :: TaskManager where
  "created_manager =
     sample_manager\<lparr>manager_tasks := [(''t1'', sample_task)], executors := [''t1'']\<rparr>"

definition leaves_task :: "Task \<Rightarrow> Task" where
  "leaves_task t = t"

definition completes_task :: "Task \<Rightarrow> Task" where
  "completes_task t = snd (transition t COMPLETED 7 8)"

section \<open>Verified properties\<close>

subsection \<open>Task and protocol transitions\<close>

text \<open>
  C9. A transition to a target that is not permitted from the current state raises:
  \<open>ProtocolStateMachine.transition\<close> raises \<open>InvalidStateTransition\<close> and
  \<open>Task.transition\<close> raises \<open>InvalidTaskTransition\<close>. Both leave the object as it
  was: the state, for a task also \<open>updated_at\<close>, \<open>started_at\<close> and \<open>completed_at\<close>,
  and no listener is invoked.
\<close>

theorem invalid_transition_raises_and_leaves_state:
  "(new_state \<notin> set (PROTOCOL_VALID_TRANSITIONS (psm_state m)) \<longrightarrow>
      psm_transition m new_state = (Some (InvalidStateTransition (psm_state m) new_state), m)
      \<and> psm_state (snd (psm_transition m new_state)) = psm_state m
      \<and> invoked (snd (psm_transition m new_state)) = invoked m)
   \<and> (target \<notin> set (VALID_TRANSITIONS (task_state t)) \<longrightarrow>
      transition t target now1 now2
        = (Some (InvalidTaskTransition (task_id t) (task_state t) target), t)
      \<and> task_state (snd (transition t target now1 now2)) = task_state t
      \<and> updated_at (snd (transition t target now1 now2)) = updated_at t
      \<and> started_at (snd (transition t target now1 now2)) = started_at t
      \<and> completed_at (snd (transition t target now1 now2)) = completed_at t)"
  by (simp add: psm_transition_def can_transition_to_def transition_def)

theorem invalid_transition_raises_and_leaves_state_witness:
  "READY \<notin> set (PROTOCOL_VALID_TRANSITIONS (psm_state (on_transition (psm_init CLOSED) 7)))
   \<and> COMPLETED \<notin> set (VALID_TRANSITIONS (task_state (new_task ''t1'' ''tools/call'' [] 10 11)))
   \<and> psm_transition (on_transition (psm_init CLOSED) 7) READY
       = (Some (InvalidStateTransition CLOSED READY), on_transition (psm_init CLOSED) 7)
   \<and> invoked (snd (psm_transition (on_transition (psm_init CLOSED) 7) READY)) = []
   \<and> transition (new_task ''t1'' ''tools/call'' [] 10 11) COMPLETED 20 21
       = (Some (InvalidTaskTransition ''t1'' PENDING COMPLETED),
          new_task ''t1'' ''tools/call'' [] 10 11)
   \<and> updated_at (snd (transition (new_task ''t1'' ''tools/call'' [] 10 11) COMPLETED 20 21)) = 11
   \<and> completed_at (snd (transition (new_task ''t1'' ''tools/call'' [] 10 11) COMPLETED 20 21)) = None"
  using invalid_transition_raises_and_leaves_state
    [of READY "on_transition (psm_init CLOSED) 7" COMPLETED
        "new_task ''t1'' ''tools/call'' [] 10 11" 20 21]
  by (simp add: on_transition_def psm_init_def new_task_def)

text \<open>
  C1. \<open>Task.transition\<close> succeeds exactly along the permitted edges (PENDING to RUNNING
  or CANCELLED; RUNNING to COMPLETED, FAILED or CANCELLED; nothing leaves COMPLETED,
  FAILED or CANCELLED). A successful transition stamps \<open>updated_at\<close> with the clock
  reading it takes, which is later than the previous \<open>updated_at\<close> whenever the clock has
  moved past it; it stamps \<open>started_at\<close> on entry to RUNNING and nowhere else, and
  \<open>completed_at\<close> exactly when the new state is terminal, so that a task that had no
  \<open>completed_at\<close> has one afterwards iff its state is terminal.
\<close>

theorem transition_edges_and_stamps:
  "(fst (transition t s now1 now2) = None \<longleftrightarrow> (task_state t, s) \<in> task_edges)
   \<and> ((task_state t, s) \<in> task_edges \<longrightarrow>
        task_state (snd (transition t s now1 now2)) = s
      \<and> updated_at (snd (transition t s now1 now2)) = now1
      \<and> (updated_at t < now1 \<longrightarrow> updated_at t < updated_at (snd (transition t s now1 now2)))
      \<and> started_at (snd (transition t s now1 now2))
          = (if s = RUNNING then Some now2 else started_at t)
      \<and> completed_at (snd (transition t s now1 now2))
          = (if is_terminal_state s then Some now2 else completed_at t)
      \<and> (completed_at t = None \<longrightarrow>
            (completed_at (snd (transition t s now1 now2)) \<noteq> None
             \<longleftrightarrow> is_terminal (snd (transition t s now1 now2)))))"
  by (cases "task_state t"; cases s)
     (simp_all add: transition_def task_edges_def is_terminal_def is_terminal_state_def)

theorem transition_edges_and_stamps_witness:
  "(task_state (new_task ''t1'' ''tools/call'' [] 10 11), RUNNING) \<in> task_edges
   \<and> updated_at (new_task ''t1'' ''tools/call'' [] 10 11) < 20
   \<and> completed_at (new_task ''t1'' ''tools/call'' [] 10 11) = None
   \<and> fst (transition (new_task ''t1'' ''tools/call'' [] 10 11) RUNNING 20 21) = None
   \<and> task_state (snd (transition (new_task ''t1'' ''tools/call'' [] 10 11) RUNNING 20 21)) = RUNNING
   \<and> updated_at (snd (transition (new_task ''t1'' ''tools/call'' [] 10 11) RUNNING 20 21)) = 20
   \<and> started_at (snd (transition (new_task ''t1'' ''tools/call'' [] 10 11) RUNNING 20 21)) = Some 21
   \<and> completed_at (snd (transition (new_task ''t1'' ''tools/call'' [] 10 11) RUNNING 20 21)) = None"
  using transition_edges_and_stamps [of "new_task ''t1'' ''tools/call'' [] 10 11" RUNNING 20 21]
  by (simp add: new_task_def task_edges_def is_terminal_state_def)

text \<open>
  The specification's wording, with \<open>updated_at\<close> strictly increasing on every successful
  transition, fails when the clock returns the reading it returned before: a task created at
  reading 100 and started at the same reading keeps \<open>updated_at = 100\<close>.
\<close>

theorem transition_updated_at_not_strict:
  "fst (transition (new_task ''t1'' ''tools/call'' [] 100 100) RUNNING 100 100) = None
   \<and> updated_at (new_task ''t1'' ''tools/call'' [] 100 100) = 100
   \<and> updated_at (snd (transition (new_task ''t1'' ''tools/call'' [] 100 100) RUNNING 100 100)) = 100
   \<and> \<not> updated_at (new_task ''t1'' ''tools/call'' [] 100 100)
        < updated_at (snd (transition (new_task ''t1'' ''tools/call'' [] 100 100) RUNNING 100 100))"
  by (simp add: transition_def new_task_def)

subsection \<open>Progress completion\<close>

lemma completed_after_calls:
  "tok \<in> completed (foldl tracker_step tr calls) \<Longrightarrow>
   tok \<in> completed tr \<or>
   (\<exists>info tot. Update info \<in> set calls \<and> progress_token info = tok
       \<and> total info = Some tot \<and> float_ge (progress info) tot)"
proof (induction calls arbitrary: tr)
  case Nil
  then show ?case by simp
next
  case (Cons c calls)
  from Cons.IH [OF Cons.prems [simplified]]
  show ?case
    by (cases c)
       (auto simp: start_tracking_def update_def remove_def clear_def Let_def
                   ProgressInfo_is_complete_def split: if_splits option.splits)
qed

text \<open>
  C10. \<open>ProgressInfo.is_complete\<close> is False whenever \<open>total\<close> is None. On a tracker that
  started empty, \<open>is_complete(token)\<close> is True only if one of the updates it handled for
  that token carried a total with \<open>progress >= total\<close>; an update without a total never
  changes whether a token counts as complete, whatever its progress value.
\<close>

theorem tracker_complete_needs_total:
  "(total info = None \<longrightarrow> \<not> ProgressInfo_is_complete info)
   \<and> (tracker_is_complete (tracker_run tracker_init calls) tok \<longrightarrow>
        (\<exists>i tot. Update i \<in> set calls \<and> progress_token i = tok
           \<and> total i = Some tot \<and> float_ge (progress i) tot))
   \<and> (total info = None \<longrightarrow>
        tracker_is_complete (update tr info) tok = tracker_is_complete tr tok)"
  using completed_after_calls [of tok tracker_init calls]
  by (auto simp: tracker_is_complete_def tracker_run_def tracker_init_def
                ProgressInfo_is_complete_def update_def)

theorem tracker_complete_needs_total_witness:
  "total \<lparr>progress_token = TokStr ''t1'', progress = PosInf, total = None, message = None\<rparr> = None
   \<and> \<not> ProgressInfo_is_complete
          \<lparr>progress_token = TokStr ''t1'', progress = PosInf, total = None, message = None\<rparr>
   \<and> \<not> tracker_is_complete
          (update tracker_init
             \<lparr>progress_token = TokStr ''t1'', progress = PosInf, total = None, message = None\<rparr>)
          (TokStr ''t1'')
   \<and> tracker_is_complete
        (tracker_run tracker_init
           [Update \<lparr>progress_token = TokStr ''t1'', progress = Finite (1 / 2),
                     total = None, message = None\<rparr>,
            Update \<lparr>progress_token = TokStr ''t1'', progress = Finite 1,
                     total = Some (Finite 1), message = None\<rparr>])
        (TokStr ''t1'')
   \<and> (\<exists>i tot. Update i \<in> set
           [Update \<lparr>progress_token = TokStr ''t1'', progress = Finite (1 / 2),
                     total = None, message = None\<rparr>,
            Update \<lparr>progress_token = TokStr ''t1'', progress = Finite 1,
                     total = Some (Finite 1), message = None\<rparr>]
         \<and> progress_token i = TokStr ''t1'' \<and> total i = Some tot
         \<and> float_ge (progress i) tot)"
  using tracker_complete_needs_total
    [of "\<lparr>progress_token = TokStr ''t1'', progress = PosInf, total = None, message = None\<rparr>"
        "[Update \<lparr>progress_token = TokStr ''t1'', progress = Finite (1 / 2),
                   total = None, message = None\<rparr>,
          Update \<lparr>progress_token = TokStr ''t1'', progress = Finite 1,
                   total = Some (Finite 1), message = None\<rparr>]"
        "TokStr ''t1''" tracker_init]
  by (simp add: tracker_run_def tracker_init_def update_def ProgressInfo_is_complete_def
                tracker_is_complete_def float_ge_def)

subsection \<open>Transport url validation\<close>

text \<open>
  C6. \<open>TransportConfig\<close> construction is to accept a url only when its scheme is https,
  or http with a loopback host, and to reject every other url. The check looks for the
  literal prefix \<open>http://\<close> only. A remote plaintext url written \<open>HTTP://example.com/mcp\<close>,
  or written with a blank in front, is a url of scheme http and host \<open>example.com\<close> to the
  url parser and to the HTTP client, yet it does not start with \<open>http://\<close>: construction
  accepts it without parsing it, whatever the parser would answer. A url of another scheme
  is accepted the same way.
\<close>

theorem post_init_accepts_remote_plaintext:
  "post_init hostname (default_config ''HTTP://example.com/mcp'') = None
   \<and> post_init hostname (default_config '' http://example.com/mcp'') = None
   \<and> post_init hostname (default_config ''ftp://example.com/mcp'') = None"
  by (simp add: post_init_def default_config_def)

subsection \<open>Session header\<close>

lemma send_ready:
  "transport_ready tr \<Longrightarrow> send tr msg outcome = (hdrs, res, tr') \<Longrightarrow>
     transport_ready tr' \<and> hdrs = Some (request_headers tr)"
  by (auto simp: send_def send_internal_def transport_ready_def Let_def
           split: post_outcome.splits option.splits if_splits)

lemma send_session_kept:
  "\<not> carries_session outcome \<Longrightarrow> send tr msg outcome = (hdrs, res, tr') \<Longrightarrow>
     session_id tr' = session_id tr"
  by (auto simp: send_def send_internal_def carries_session_def Let_def
           split: post_outcome.splits option.splits if_splits)

lemma send_session_adopted:
  "transport_ready tr \<Longrightarrow> session_header response = Some v \<Longrightarrow>
   send tr msg (PostResponse response) = (hdrs, res, tr') \<Longrightarrow> session_id tr' = Some v"
  by (auto simp: send_def send_internal_def transport_ready_def Let_def
           split: option.splits if_splits)

lemma run_sends_append:
  "run_sends tr (xs @ ys) =
     (case run_sends tr xs of (hs, tr') \<Rightarrow>
        (case run_sends tr' ys of (hs', tr'') \<Rightarrow> (hs @ hs', tr'')))"
  by (induction xs arbitrary: tr) (auto split: prod.splits)

lemma run_sends_ready:
  "transport_ready tr \<Longrightarrow> transport_ready (snd (run_sends tr xs))"
proof (induction xs arbitrary: tr)
  case Nil then show ?case by simp
next
  case (Cons x xs)
  obtain msg outcome where x: "x = (msg, outcome)" by (cases x)
  obtain hdrs res tr' where s: "send tr msg outcome = (hdrs, res, tr')"
    by (cases "send tr msg outcome") auto
  from send_ready [OF Cons.prems s] have "transport_ready tr'" by simp
  from Cons.IH [OF this] show ?case using x s by (auto split: prod.splits)
qed

lemma run_sends_session_kept:
  "\<forall>x \<in> set xs. \<not> carries_session (snd x) \<Longrightarrow>
     session_id (snd (run_sends tr xs)) = session_id tr"
proof (induction xs arbitrary: tr)
  case Nil then show ?case by simp
next
  case (Cons x xs)
  obtain msg outcome where x: "x = (msg, outcome)" by (cases x)
  obtain hdrs res tr' where s: "send tr msg outcome = (hdrs, res, tr')"
    by (cases "send tr msg outcome") auto
  from Cons.prems x have "\<not> carries_session outcome" by simp
  from send_session_kept [OF this s] have k: "session_id tr' = session_id tr" .
  from Cons.prems have "\<forall>x \<in> set xs. \<not> carries_session (snd x)" by simp
  from Cons.IH [OF this, of tr'] k show ?case using x s by (auto split: prod.splits)
qed

text \<open>
  C5. On a connected transport, once a response has carried a non-empty
  \<open>Mcp-Session-Id\<close> value \<open>v\<close>, every later send, for as long as no other response carries
  the header, issues its POST with \<open>Mcp-Session-Id: v\<close>; \<open>disconnect\<close> then clears the
  session.
\<close>

theorem session_id_echoed:
  assumes ready: "transport_ready tr"
    and seen: "session_header response = Some v" and nonempty: "v \<noteq> []"
    and quiet: "\<forall>x \<in> set mid. \<not> carries_session (snd x)"
  shows "last (fst (run_sends tr
                 (pre @ [(msg, PostResponse response)] @ mid @ [(msg', outcome')])))
           = Some (BASE_HEADERS @ [(''Mcp-Session-Id'', v)])
         \<and> session_id (disconnect (snd (run_sends tr
              (pre @ [(msg, PostResponse response)] @ mid @ [(msg', outcome')])))) = None"
proof -
  obtain h0 tr0 where r0: "run_sends tr pre = (h0, tr0)" by (cases "run_sends tr pre")
  have ready0: "transport_ready tr0" using run_sends_ready [OF ready, of pre] r0 by simp
  obtain h1 res1 tr1 where s1: "send tr0 msg (PostResponse response) = (h1, res1, tr1)"
    by (cases "send tr0 msg (PostResponse response)") auto
  have ready1: "transport_ready tr1" using send_ready [OF ready0 s1] by simp
  have sid1: "session_id tr1 = Some v" using send_session_adopted [OF ready0 seen s1] .
  obtain h2 tr2 where r2: "run_sends tr1 mid = (h2, tr2)" by (cases "run_sends tr1 mid")
  have ready2: "transport_ready tr2" using run_sends_ready [OF ready1, of mid] r2 by simp
  have sid2: "session_id tr2 = Some v"
    using run_sends_session_kept [OF quiet, of tr1] r2 sid1 by simp
  obtain h3 res3 tr3 where s3: "send tr2 msg' outcome' = (h3, res3, tr3)"
    by (cases "send tr2 msg' outcome'") auto
  have h3: "h3 = Some (request_headers tr2)" and ready3: "transport_ready tr3"
    using send_ready [OF ready2 s3] by simp_all
  have run: "run_sends tr (pre @ [(msg, PostResponse response)] @ mid @ [(msg', outcome')])
               = (h0 @ [h1] @ h2 @ [h3], tr3)"
    using r0 s1 r2 s3 by (simp add: run_sends_append)
  have "request_headers tr2 = BASE_HEADERS @ [(''Mcp-Session-Id'', v)]"
    using sid2 nonempty by (simp add: request_headers_def MCP_SESSION_HEADER_def BASE_HEADERS_def)
  moreover have "session_id (disconnect tr3) = None"
    using ready3 by (simp add: disconnect_def transport_ready_def)
  ultimately show ?thesis using run h3 by simp
qed

theorem session_id_echoed_witness:
  "transport_ready ready_transport
   \<and> session_header (accepted (Some ''s1'')) = Some ''s1'' \<and> ''s1'' \<noteq> []
   \<and> \<not> carries_session PostTimeout
   \<and> last (fst (run_sends ready_transport
        ([] @ [([], PostResponse (accepted (Some ''s1'')))] @ [([], PostTimeout)]
            @ [([], PostResponse (accepted None))])))
       = Some (BASE_HEADERS @ [(''Mcp-Session-Id'', ''s1'')])"
proof -
  have r: "transport_ready ready_transport"
    by (simp add: transport_ready_def ready_transport_def connect_def transport_init_def)
  have s: "session_header (accepted (Some ''s1'')) = Some ''s1''" by (simp add: accepted_def)
  have n: "''s1'' \<noteq> []" by simp
  have q: "\<forall>x \<in> set [([] :: pydict, PostTimeout)]. \<not> carries_session (snd x)"
    by (simp add: carries_session_def)
  have c: "\<not> carries_session PostTimeout" by (simp add: carries_session_def)
  from session_id_echoed [OF r s n q, of "[]" "[]" "[]" "PostResponse (accepted None)"] r s n c
  show ?thesis by blast
qed

text \<open>
  The specification's wording, for every observed header value, fails on the empty value: after a
  response with \<open>Mcp-Session-Id:\<close> and nothing after the colon, the next send carries no
  \<open>Mcp-Session-Id\<close> header, although the session id has been set.
\<close>

theorem empty_session_id_not_echoed:
  "fst (run_sends ready_transport
          [([], PostResponse (accepted (Some ''''))), ([], PostResponse (accepted None))])
     = [Some BASE_HEADERS, Some BASE_HEADERS]
   \<and> session_id (snd (run_sends ready_transport [([], PostResponse (accepted (Some '''')))]))
     = Some ''''"
  by (simp add: ready_transport_def connect_def transport_init_def accepted_def send_def
                send_internal_def request_headers_def BASE_HEADERS_def)

subsection \<open>Cancelling the initialize request\<close>

text \<open>
  C4. \<open>cancel_server_request\<close> refuses the request id \<open>initialize\<close>: it raises
  \<open>CancellationError\<close> and hands nothing to the transport. \<open>MCPClient.cancel_request\<close>
  has no such guard: on a connected client it raises nothing and sends
  \<open>notifications/cancelled\<close> for \<open>initialize\<close>.
\<close>

theorem cancel_request_initialize_is_sent:
  "cancel_server_request connected_client ''initialize'' None (SendReturned None)
     = (Some (CancellationError ''Cannot cancel initialize request''), connected_client)
   \<and> fst (cancel_request connected_client ''initialize'' None (SendReturned None)) = None
   \<and> sent (snd (cancel_request connected_client ''initialize'' None (SendReturned None)))
     = [[(''jsonrpc'', JStr ''2.0''), (''method'', JStr ''notifications/cancelled''),
         (''params'', JObj [(''requestId'', JStr ''initialize''), (''reason'', JNull)])]]"
  by (simp add: cancel_server_request_def cancel_request_def notify_def connected_client_def
                client_init_def psm_is_connected_def psm_init_def Let_def opt_str_def
                JSONRPCNotification_to_dict_def dict_set_def)

subsection \<open>Wire format round trips\<close>


lemma map_of_dict_set:
  "map_of (dict_set d k v) k' = (if k' = k then Some v else map_of d k')"
  by (simp add: dict_set_def update_conv')

lemma map_of_if: "map_of (if c then a else b) k = (if c then map_of a k else map_of b k)"
  by simp

lemma map_of_case_option:
  "map_of (case opt of None \<Rightarrow> a | Some v \<Rightarrow> f v) k
     = (case opt of None \<Rightarrow> map_of a k | Some v \<Rightarrow> map_of (f v) k)"
  by (cases opt) simp_all

lemma case_option_same: "(case opt of None \<Rightarrow> a | Some v \<Rightarrow> a) = a"
  by (cases opt) simp_all

lemma caps_lookup_sampling:
  "map_of (ClientCapabilities_to_dict x) ''sampling''
     = (case sampling x of Some u \<Rightarrow> Some (JObj []) | None \<Rightarrow> None)"
  by (simp add: ClientCapabilities_to_dict_def Let_def map_of_dict_set map_of_if
                map_of_case_option case_option_same
           cong: if_cong option.case_cong)

lemma caps_lookup_roots:
  "map_of (ClientCapabilities_to_dict x) ''roots''
     = (case roots x of Some r \<Rightarrow> Some (JObj [(''listChanged'', JBool (list_changed r))])
        | None \<Rightarrow> None)"
  by (simp add: ClientCapabilities_to_dict_def Let_def map_of_dict_set map_of_if
                map_of_case_option case_option_same
           cong: if_cong option.case_cong)

lemma caps_lookup_elicitation:
  "map_of (ClientCapabilities_to_dict x) ''elicitation''
     = (case elicitation x of
          Some e \<Rightarrow> Some (JObj ((if elicit_form e then [(''form'', JObj [])] else [])
                                @ (if elicit_url e then [(''url'', JObj [])] else [])))
        | None \<Rightarrow> None)"
  by (simp add: ClientCapabilities_to_dict_def Let_def dict_set_def update_conv' map_of_if
                map_of_case_option case_option_same
           cong: if_cong option.case_cong)
     (simp split: option.splits)

lemma caps_lookup_tasks:
  "map_of (ClientCapabilities_to_dict x) ''tasks''
     = (case tasks x of
          Some t \<Rightarrow> Some (JObj ((if tasks_list t then [(''list'', JObj [])] else [])
                                @ (if tasks_cancel t then [(''cancel'', JObj [])] else [])
                                @ (if tasks_requests t \<noteq> []
                                   then [(''requests'', JObj (tasks_requests t))] else [])))
        | None \<Rightarrow> None)"
  by (simp add: ClientCapabilities_to_dict_def Let_def dict_set_def update_conv' map_of_if
                map_of_case_option case_option_same
           cong: if_cong option.case_cong)
     (simp split: option.splits)

lemma caps_lookup_experimental:
  "map_of (ClientCapabilities_to_dict x) ''experimental''
     = (case experimental x of Some ex \<Rightarrow> Some (JObj ex) | None \<Rightarrow> None)"
  by (simp add: ClientCapabilities_to_dict_def Let_def map_of_dict_set map_of_if
                map_of_case_option case_option_same
           cong: if_cong option.case_cong)

lemma decode_roots_to_dict: "decode_roots (ClientCapabilities_to_dict x) = Inr (roots x)"
  by (simp add: decode_roots_def has_key_def get_default_def caps_lookup_roots split: option.splits)

lemma decode_elicitation_to_dict:
  "decode_elicitation (ClientCapabilities_to_dict x) = Inr (elicitation x)"
  by (simp add: decode_elicitation_def has_key_def get_default_def caps_lookup_elicitation
           split: option.splits)

lemma decode_tasks_to_dict: "decode_tasks (ClientCapabilities_to_dict x) = Inr (tasks x)"
  by (simp add: decode_tasks_def has_key_def get_default_def caps_lookup_tasks split: option.splits)

lemma decode_experimental_to_dict:
  "decode_experimental (ClientCapabilities_to_dict x) = Inr (experimental x)"
  by (simp add: decode_experimental_def dict_get_def caps_lookup_experimental split: option.splits)

lemma lookup_id: "map_of (Task_to_dict isof t) ''id'' = Some (JStr (task_id t))"
  by (simp add: Task_to_dict_def Let_def map_of_dict_set map_of_if map_of_case_option case_option_same cong: if_cong option.case_cong)

lemma lookup_type: "map_of (Task_to_dict isof t) ''type'' = Some (JStr (task_type t))"
  by (simp add: Task_to_dict_def Let_def map_of_dict_set map_of_if map_of_case_option case_option_same cong: if_cong option.case_cong)

lemma lookup_state:
  "map_of (Task_to_dict isof t) ''state'' = Some (JStr (TaskState_value (task_state t)))"
  by (simp add: Task_to_dict_def Let_def map_of_dict_set map_of_if map_of_case_option case_option_same cong: if_cong option.case_cong)

lemma lookup_createdAt:
  "map_of (Task_to_dict isof t) ''createdAt'' = Some (JStr (isof (created_at t)))"
  by (simp add: Task_to_dict_def Let_def map_of_dict_set map_of_if map_of_case_option case_option_same cong: if_cong option.case_cong)

lemma lookup_updatedAt:
  "map_of (Task_to_dict isof t) ''updatedAt'' = Some (JStr (isof (updated_at t)))"
  by (simp add: Task_to_dict_def Let_def map_of_dict_set map_of_if map_of_case_option case_option_same cong: if_cong option.case_cong)

lemma lookup_progress:
  "map_of (Task_to_dict isof t) ''progress''
     = (case task_progress t of None \<Rightarrow> None | Some p \<Rightarrow> Some (JObj (TaskProgress_to_dict p)))"
  by (simp add: Task_to_dict_def Let_def map_of_dict_set map_of_if map_of_case_option case_option_same cong: if_cong option.case_cong)

lemma lookup_result:
  "map_of (Task_to_dict isof t) ''result''
     = (if task_result t \<noteq> JNull then Some (task_result t) else None)"
  by (simp add: Task_to_dict_def Let_def map_of_dict_set map_of_if map_of_case_option case_option_same cong: if_cong option.case_cong)

lemma lookup_error:
  "map_of (Task_to_dict isof t) ''error''
     = (case task_error t of None \<Rightarrow> None | Some e \<Rightarrow> Some (JObj (TaskError_to_dict e)))"
  by (simp add: Task_to_dict_def Let_def map_of_dict_set map_of_if map_of_case_option case_option_same cong: if_cong option.case_cong)

lemma lookup_startedAt:
  "map_of (Task_to_dict isof t) ''startedAt''
     = (case started_at t of None \<Rightarrow> None | Some d \<Rightarrow> Some (JStr (isof d)))"
  by (simp add: Task_to_dict_def Let_def map_of_dict_set map_of_if map_of_case_option case_option_same cong: if_cong option.case_cong)

lemma lookup_completedAt:
  "map_of (Task_to_dict isof t) ''completedAt''
     = (case completed_at t of None \<Rightarrow> None | Some d \<Rightarrow> Some (JStr (isof d)))"
  by (simp add: Task_to_dict_def Let_def map_of_dict_set map_of_if map_of_case_option case_option_same cong: if_cong option.case_cong)

lemma lookup_meta:
  "map_of (Task_to_dict isof t) ''_meta''
     = (if metadata t \<noteq> [] then Some (JObj (metadata t)) else None)"
  by (simp add: Task_to_dict_def Let_def map_of_dict_set map_of_if map_of_case_option case_option_same cong: if_cong option.case_cong)


lemma and_then_Inr: "and_then (Inr v) f = f v"
  by (simp add: and_then_def)

lemma state_value_inverse: "TaskState_of_value (TaskState_value s) = Some s"
  by (cases s) (simp_all add: TaskState_of_value_def)

lemma decode_id_to_dict: "decode_id (Task_to_dict isof t) = Inr (task_id t)"
  by (simp add: decode_id_def lookup_id)

lemma decode_type_to_dict: "decode_type (Task_to_dict isof t) = Inr (task_type t)"
  by (simp add: decode_type_def get_default_def lookup_type)

lemma decode_state_to_dict: "decode_state (Task_to_dict isof t) = Inr (task_state t)"
  by (simp add: decode_state_def lookup_state state_value_inverse)

lemma decode_meta_to_dict: "decode_meta (Task_to_dict isof t) = Inr (metadata t)"
  by (simp add: decode_meta_def get_default_def lookup_meta)

lemma decode_created_to_dict:
  "decode_datetime fromiso (Task_to_dict isof t) ''createdAt''
     = (case fromiso (isof (created_at t)) of
          Some dt \<Rightarrow> Inr (Some dt) | None \<Rightarrow> Inl DecodeValueError)"
  by (simp add: decode_datetime_def has_key_def dict_get_def lookup_createdAt)

lemma decode_updated_to_dict:
  "decode_datetime fromiso (Task_to_dict isof t) ''updatedAt''
     = (case fromiso (isof (updated_at t)) of
          Some dt \<Rightarrow> Inr (Some dt) | None \<Rightarrow> Inl DecodeValueError)"
  by (simp add: decode_datetime_def has_key_def dict_get_def lookup_updatedAt)

lemma decode_started_to_dict:
  "decode_datetime fromiso (Task_to_dict isof t) ''startedAt''
     = (case started_at t of
          None \<Rightarrow> Inr None
        | Some d \<Rightarrow> (case fromiso (isof d) of
                      Some dt \<Rightarrow> Inr (Some dt) | None \<Rightarrow> Inl DecodeValueError))"
  by (simp add: decode_datetime_def has_key_def dict_get_def lookup_startedAt
           split: option.splits)

lemma decode_completed_to_dict:
  "decode_datetime fromiso (Task_to_dict isof t) ''completedAt''
     = (case completed_at t of
          None \<Rightarrow> Inr None
        | Some d \<Rightarrow> (case fromiso (isof d) of
                      Some dt \<Rightarrow> Inr (Some dt) | None \<Rightarrow> Inl DecodeValueError))"
  by (simp add: decode_datetime_def has_key_def dict_get_def lookup_completedAt
           split: option.splits)

lemma progress_lookups:
  "map_of (TaskProgress_to_dict p) ''current'' = Some (JInt (progress_current p))"
  "map_of (TaskProgress_to_dict p) ''total''
     = (case progress_total p of None \<Rightarrow> None | Some n \<Rightarrow> Some (JInt n))"
  "map_of (TaskProgress_to_dict p) ''message''
     = (case progress_message p of None \<Rightarrow> None | Some m \<Rightarrow> Some (JStr m))"
  by (simp_all add: TaskProgress_to_dict_def Let_def map_of_dict_set map_of_case_option
                    case_option_same cong: option.case_cong)

lemma decode_progress_to_dict:
  "decode_progress (Task_to_dict isof t) = Inr (task_progress t)"
  by (simp add: decode_progress_def has_key_def dict_get_def lookup_progress progress_lookups
                decode_opt_int_def decode_opt_str_def and_then_def
           split: option.splits)

lemma error_lookups:
  "map_of (TaskError_to_dict e) ''code'' = Some (JInt (error_code e))"
  "map_of (TaskError_to_dict e) ''message'' = Some (JStr (error_message e))"
  "map_of (TaskError_to_dict e) ''data''
     = (if error_data e \<noteq> JNull then Some (error_data e) else None)"
  by (simp_all add: TaskError_to_dict_def Let_def map_of_dict_set)

lemma decode_error_to_dict:
  "decode_error (Task_to_dict isof t) = Inr (task_error t)"
  by (simp add: decode_error_def has_key_def dict_get_def lookup_error error_lookups
           split: option.splits)

lemma result_to_dict: "dict_get (Task_to_dict isof t) ''result'' = task_result t"
  by (simp add: dict_get_def lookup_result)

lemma task_round_trip:
  "Task_from_dict fromiso now1 now2 (Task_to_dict isof t) =
     and_then (case fromiso (isof (created_at t)) of
                 Some dt \<Rightarrow> Inr dt | None \<Rightarrow> Inl DecodeValueError) (\<lambda>created.
     and_then (case fromiso (isof (updated_at t)) of
                 Some dt \<Rightarrow> Inr dt | None \<Rightarrow> Inl DecodeValueError) (\<lambda>updated.
     and_then (case started_at t of
                 None \<Rightarrow> Inr None
               | Some d \<Rightarrow> (case fromiso (isof d) of
                             Some dt \<Rightarrow> Inr (Some dt) | None \<Rightarrow> Inl DecodeValueError))
       (\<lambda>started.
     and_then (case completed_at t of
                 None \<Rightarrow> Inr None
               | Some d \<Rightarrow> (case fromiso (isof d) of
                             Some dt \<Rightarrow> Inr (Some dt) | None \<Rightarrow> Inl DecodeValueError))
       (\<lambda>completed.
         Inr (t\<lparr>created_at := created, updated_at := updated, started_at := started,
                 completed_at := completed\<rparr>)))))"
  by (cases t)
     (simp add: Task_from_dict_def decode_id_to_dict decode_type_to_dict decode_state_to_dict
                decode_meta_to_dict decode_created_to_dict decode_updated_to_dict
                decode_started_to_dict decode_completed_to_dict decode_progress_to_dict
                decode_error_to_dict result_to_dict and_then_def
           split: option.splits)

text \<open>
  C8. For every \<open>ClientCapabilities\<close> value \<open>x\<close>, \<open>from_dict(x.to_dict())\<close> is \<open>x\<close>.
  For every \<open>Task\<close> \<open>t\<close>, \<open>Task.from_dict(t.to_dict())\<close> is \<open>t\<close> exactly when each
  datetime of \<open>t\<close> comes back from its ISO text as the value it was, whatever the clock
  reads during \<open>from_dict\<close>.
\<close>

theorem from_dict_to_dict_roundtrip:
  "ClientCapabilities_from_dict (ClientCapabilities_to_dict x) = Inr x
   \<and> (Task_from_dict fromisoformat now1 now2 (Task_to_dict isoformat t) = Inr t
        \<longleftrightarrow> datetimes_survive isoformat fromisoformat t)"
proof
  show "ClientCapabilities_from_dict (ClientCapabilities_to_dict x) = Inr x"
    by (simp add: ClientCapabilities_from_dict_def decode_roots_to_dict
                  decode_elicitation_to_dict decode_tasks_to_dict decode_experimental_to_dict
                  has_key_def caps_lookup_sampling
             split: option.splits)
  show "Task_from_dict fromisoformat now1 now2 (Task_to_dict isoformat t) = Inr t
        \<longleftrightarrow> datetimes_survive isoformat fromisoformat t"
    by (cases t)
       (auto simp: task_round_trip and_then_def datetimes_survive_def survives_def
             split: option.splits)
qed


theorem from_dict_to_dict_roundtrip_witness:
  "datetimes_survive sample_isoformat sample_fromisoformat utc_task
   \<and> Task_from_dict sample_fromisoformat (Naive (WallClock 2026 11 5 0 0 0 0))
         (Naive (WallClock 2026 11 5 0 0 0 0)) (Task_to_dict sample_isoformat utc_task)
       = Inr utc_task
   \<and> ClientCapabilities_from_dict (ClientCapabilities_to_dict DEFAULT_CLIENT_CAPABILITIES)
       = Inr DEFAULT_CLIENT_CAPABILITIES"
proof -
  have s: "datetimes_survive sample_isoformat sample_fromisoformat utc_task"
    by (simp add: datetimes_survive_def survives_def utc_task_def pad2_def pad4_def pad6_def
                  digit_char_def offset_text_def sample_fromisoformat_def parse_wallclock_def
                  parse_offset_def digit_val_def Let_def)
  from from_dict_to_dict_roundtrip [of DEFAULT_CLIENT_CAPABILITIES sample_fromisoformat
              "Naive (WallClock 2026 11 5 0 0 0 0)" "Naive (WallClock 2026 11 5 0 0 0 0)"
              sample_isoformat utc_task] s
  show ?thesis by blast
qed

text \<open>
  The specification's wording, for every constructible task, fails on a task whose
  \<open>created_at\<close> is 2020-11-01 01:30 in America/New_York: \<open>isoformat\<close> writes the reading
  and the offset, \<open>fromisoformat\<close> returns a value with a fixed offset, and Python does not
  find the two equal, so the task that comes back is another task.
\<close>

theorem repeated_reading_breaks_task_roundtrip:
  "sample_isoformat (created_at new_york_task) = ''2020-11-01T01:30:00-04:00''
   \<and> sample_fromisoformat ''2020-11-01T01:30:00-04:00''
       = Some (Aware (WallClock 2020 11 1 1 30 0 0) (- 240))
   \<and> Task_from_dict sample_fromisoformat (Naive (WallClock 2026 11 5 0 0 0 0))
         (Naive (WallClock 2026 11 5 0 0 0 0)) (Task_to_dict sample_isoformat new_york_task)
       = Inr (new_york_task\<lparr>created_at := Aware (WallClock 2020 11 1 1 30 0 0) (- 240)\<rparr>)
   \<and> Task_from_dict sample_fromisoformat (Naive (WallClock 2026 11 5 0 0 0 0))
         (Naive (WallClock 2026 11 5 0 0 0 0)) (Task_to_dict sample_isoformat new_york_task)
       \<noteq> Inr new_york_task"
  by (simp add: task_round_trip and_then_def new_york_task_def utc_task_def pad2_def pad4_def
                pad6_def digit_char_def offset_text_def sample_fromisoformat_def
                parse_wallclock_def parse_offset_def digit_val_def Let_def)

subsection \<open>The initialized notification\<close>

lemma initialize_request_result:
  "request sample_str connected_client ''initialize'' params (Some (Finite 10)) ''r1''
     (SendReturned (Some (initialize_response ''r1''))) []
   = (Inr (JObj [(''protocolVersion'', JStr ''2025-11-25''),
                         (''capabilities'', JObj [(''tools'', JObj [])]),
                         (''serverInfo'', JObj [(''name'', JStr ''srv''),
                                                (''version'', JStr ''1.0'')])]),
      connected_client\<lparr>futures := (futures connected_client)(0 := FutureResult (JObj [(''protocolVersion'', JStr ''2025-11-25''),
                         (''capabilities'', JObj [(''tools'', JObj [])]),
                         (''serverInfo'', JObj [(''name'', JStr ''srv''),
                                                (''version'', JStr ''1.0'')])])),
         next_future := 1, sent := [JSONRPCRequest_to_dict ''initialize'' params ''r1'']\<rparr>)"
  by (simp add: request_def connected_client_def client_init_def psm_is_connected_def
                psm_init_def Let_def handle_response_def initialize_response_def
                JSONRPCResponse_from_dict_def has_key_def dict_get_def id_str_def
                future_done_def)

text \<open>
  C3. After an \<open>initialize\<close> response that names a supported protocol version,
  \<open>negotiate\<close> sends one notification and calls \<open>mark_ready\<close>, which moves the client
  from INITIALIZING to READY. The method of the notification it sends is \<open>initialized\<close>,
  not \<open>notifications/initialized\<close>.
\<close>

theorem negotiate_sends_initialized:
  "fst (negotiate sample_str negotiator_init connected_client (Finite 10) ''r1''
          (SendReturned (Some (initialize_response ''r1''))) [] (SendReturned None))
     = Inr \<lparr>protocol_version = JStr ''2025-11-25'',
            server_info = \<lparr>server_name = JStr ''srv'', server_version = JStr ''1.0''\<rparr>,
            server_capabilities =
              \<lparr>server_tools = Some \<lparr>tools_list_changed = JBool False\<rparr>,
               server_resources = None, server_prompts = None, server_tasks = None,
               server_logging = False, server_completions = False,
               server_experimental = JNull\<rparr>,
            client_capabilities = DEFAULT_CLIENT_CAPABILITIES\<rparr>
   \<and> sent_methods (snd (snd (negotiate sample_str negotiator_init connected_client (Finite 10)
          ''r1'' (SendReturned (Some (initialize_response ''r1''))) [] (SendReturned None))))
     = [JStr ''initialize'', JStr ''initialized'']
   \<and> psm_state (client_state (snd (snd (negotiate sample_str negotiator_init connected_client
          (Finite 10) ''r1'' (SendReturned (Some (initialize_response ''r1''))) []
          (SendReturned None)))))
     = READY
   \<and> last (sent_methods (snd (snd (negotiate sample_str negotiator_init connected_client
          (Finite 10) ''r1'' (SendReturned (Some (initialize_response ''r1''))) []
          (SendReturned None)))))
     \<noteq> JStr ''notifications/initialized''"
  apply (simp only: negotiate_def Let_def initialize_request_result)
  by (simp add: Let_def get_default_def SUPPORTED_VERSIONS_def
                ServerInfo_from_dict_def ServerCapabilities_from_dict_def parse_member_def
                and_then_def has_key_def dict_get_def notify_def psm_is_connected_def
                connected_client_def client_init_def psm_init_def mark_ready_def
                psm_transition_def can_transition_to_def notify_listeners_def
                negotiator_init_def sent_methods_def JSONRPCRequest_to_dict_def
                JSONRPCNotification_to_dict_def dict_set_def)

subsection \<open>Task execution failures\<close>

lemma created_pending:
  "create_task mgr ty meta tmo uuid c1 c2 = Inr (t, task_timeout, mgr1) \<Longrightarrow>
     task_state t = PENDING"
  by (auto simp: create_task_def Let_def new_task_def split: if_splits)

lemma run_then_fail:
  assumes "task_state t = PENDING" and "\<forall>x. task_state (touch x) = task_state x"
    and "wait_for outcome = Inl e"
    and "e = AsyncioTimeoutError \<or> (is_Exception e \<and> e \<noteq> AsyncioTimeoutError)"
  shows "fst (execute_task str_of exc_str mgr t touch outcome tmo n1 n2 n3 n4) = None
       \<and> task_state (fst (snd (execute_task str_of exc_str mgr t touch outcome tmo n1 n2 n3 n4)))
           = FAILED
       \<and> task_error (fst (snd (execute_task str_of exc_str mgr t touch outcome tmo n1 n2 n3 n4)))
           = Some (if e = AsyncioTimeoutError then TIMEOUT_ERROR str_of tmo
                   else INTERNAL_TASK_ERROR exc_str e)"
proof -
  have r: "task_state (touch (t\<lparr>task_state := RUNNING, updated_at := n1, started_at := Some n2\<rparr>))
             = RUNNING"
    using assms(2) by simp
  show ?thesis
    using assms(1,3,4) r
    by (auto simp: execute_task_def execute_handlers_def transition_task_def transition_def
                   Let_def is_Exception_def TIMEOUT_ERROR_def INTERNAL_TASK_ERROR_def
             split: prod.splits)
qed

text \<open>
  C7. For a task created by \<open>create_task\<close> whose executor leaves the task's state as it
  is: if the deadline passes and the executor stops on the cancellation that follows, or if
  the executor itself raises \<open>asyncio.TimeoutError\<close>, the task ends FAILED with a TaskError
  of code -32001; if the executor raises any other exception derived from \<open>Exception\<close>,
  before the deadline or in reply to the cancellation at the deadline, the task ends FAILED
  with a TaskError of code -32603 carrying the exception's text. In both cases no exception
  leaves the background coroutine, so none reaches the caller of \<open>create_task\<close>.
\<close>

theorem executor_failure_becomes_failed_task:
  assumes "create_task mgr ty meta tmo uuid c1 c2 = Inr (t, task_timeout, mgr1)"
    and "\<forall>x. task_state (touch x) = task_state x"
  shows "(outcome = DeadlineExceeded Stops \<or> outcome = Raised AsyncioTimeoutError \<longrightarrow>
            fst (execute_task str_of exc_str mgr1 t touch outcome task_timeout n1 n2 n3 n4) = None
          \<and> task_state (fst (snd (execute_task str_of exc_str mgr1 t touch outcome task_timeout
                                     n1 n2 n3 n4))) = FAILED
          \<and> task_error (fst (snd (execute_task str_of exc_str mgr1 t touch outcome task_timeout
                                     n1 n2 n3 n4)))
              = Some (TIMEOUT_ERROR str_of task_timeout)
          \<and> error_code (TIMEOUT_ERROR str_of task_timeout) = - 32001)
       \<and> ((outcome = Raised e \<or> outcome = DeadlineExceeded (RaisesLate e))
            \<and> is_Exception e \<and> e \<noteq> AsyncioTimeoutError \<longrightarrow>
            fst (execute_task str_of exc_str mgr1 t touch outcome task_timeout n1 n2 n3 n4) = None
          \<and> task_state (fst (snd (execute_task str_of exc_str mgr1 t touch outcome task_timeout
                                     n1 n2 n3 n4))) = FAILED
          \<and> task_error (fst (snd (execute_task str_of exc_str mgr1 t touch outcome task_timeout
                                     n1 n2 n3 n4)))
              = Some (INTERNAL_TASK_ERROR exc_str e)
          \<and> error_code (INTERNAL_TASK_ERROR exc_str e) = - 32603)"
proof -
  from created_pending [OF assms(1)] have p: "task_state t = PENDING" .
  have a: "outcome = DeadlineExceeded Stops \<or> outcome = Raised AsyncioTimeoutError \<longrightarrow>
            fst (execute_task str_of exc_str mgr1 t touch outcome task_timeout n1 n2 n3 n4) = None
          \<and> task_state (fst (snd (execute_task str_of exc_str mgr1 t touch outcome task_timeout
                                     n1 n2 n3 n4))) = FAILED
          \<and> task_error (fst (snd (execute_task str_of exc_str mgr1 t touch outcome task_timeout
                                     n1 n2 n3 n4)))
              = Some (TIMEOUT_ERROR str_of task_timeout)
          \<and> error_code (TIMEOUT_ERROR str_of task_timeout) = - 32001"
  proof
    assume "outcome = DeadlineExceeded Stops \<or> outcome = Raised AsyncioTimeoutError"
    then have w: "wait_for outcome = Inl AsyncioTimeoutError"
      by (auto simp: wait_for_def)
    have d: "AsyncioTimeoutError = AsyncioTimeoutError
             \<or> (is_Exception AsyncioTimeoutError \<and> AsyncioTimeoutError \<noteq> AsyncioTimeoutError)"
      by simp
    from run_then_fail [OF p assms(2) w d, of str_of exc_str mgr1 task_timeout n1 n2 n3 n4]
    show "fst (execute_task str_of exc_str mgr1 t touch outcome task_timeout n1 n2 n3 n4) = None
          \<and> task_state (fst (snd (execute_task str_of exc_str mgr1 t touch outcome task_timeout
                                     n1 n2 n3 n4))) = FAILED
          \<and> task_error (fst (snd (execute_task str_of exc_str mgr1 t touch outcome task_timeout
                                     n1 n2 n3 n4)))
              = Some (TIMEOUT_ERROR str_of task_timeout)
          \<and> error_code (TIMEOUT_ERROR str_of task_timeout) = - 32001"
      by (simp add: TIMEOUT_ERROR_def)
  qed
  have b: "(outcome = Raised e \<or> outcome = DeadlineExceeded (RaisesLate e))
            \<and> is_Exception e \<and> e \<noteq> AsyncioTimeoutError \<longrightarrow>
            fst (execute_task str_of exc_str mgr1 t touch outcome task_timeout n1 n2 n3 n4) = None
          \<and> task_state (fst (snd (execute_task str_of exc_str mgr1 t touch outcome task_timeout
                                     n1 n2 n3 n4))) = FAILED
          \<and> task_error (fst (snd (execute_task str_of exc_str mgr1 t touch outcome task_timeout
                                     n1 n2 n3 n4)))
              = Some (INTERNAL_TASK_ERROR exc_str e)
          \<and> error_code (INTERNAL_TASK_ERROR exc_str e) = - 32603"
  proof
    assume h: "(outcome = Raised e \<or> outcome = DeadlineExceeded (RaisesLate e))
                 \<and> is_Exception e \<and> e \<noteq> AsyncioTimeoutError"
    then have w: "wait_for outcome = Inl e"
      by (auto simp: wait_for_def is_Exception_def)
    from h have d: "e = AsyncioTimeoutError \<or> (is_Exception e \<and> e \<noteq> AsyncioTimeoutError)"
      by simp
    from run_then_fail [OF p assms(2) w d, of str_of exc_str mgr1 task_timeout n1 n2 n3 n4] h
    show "fst (execute_task str_of exc_str mgr1 t touch outcome task_timeout n1 n2 n3 n4) = None
          \<and> task_state (fst (snd (execute_task str_of exc_str mgr1 t touch outcome task_timeout
                                     n1 n2 n3 n4))) = FAILED
          \<and> task_error (fst (snd (execute_task str_of exc_str mgr1 t touch outcome task_timeout
                                     n1 n2 n3 n4)))
              = Some (INTERNAL_TASK_ERROR exc_str e)
          \<and> error_code (INTERNAL_TASK_ERROR exc_str e) = - 32603"
      by (simp add: INTERNAL_TASK_ERROR_def)
  qed
  show ?thesis using a b by blast
qed


theorem executor_failure_becomes_failed_task_witness:
  "create_task sample_manager ''tools/call'' None None ''t1'' 1 2
     = Inr (sample_task, Finite 300, created_manager)
   \<and> is_Exception (OtherException ''boom'')
   \<and> fst (execute_task sample_str sample_exc_str created_manager sample_task leaves_task
            (DeadlineExceeded Stops) (Finite 300) 3 4 5 6) = None
   \<and> task_state (fst (snd (execute_task sample_str sample_exc_str created_manager sample_task
            leaves_task (DeadlineExceeded Stops) (Finite 300) 3 4 5 6))) = FAILED
   \<and> task_error (fst (snd (execute_task sample_str sample_exc_str created_manager sample_task
            leaves_task (DeadlineExceeded Stops) (Finite 300) 3 4 5 6)))
       = Some (TIMEOUT_ERROR sample_str (Finite 300))
   \<and> task_state (fst (snd (execute_task sample_str sample_exc_str created_manager sample_task
            leaves_task (DeadlineExceeded (RaisesLate (OtherException ''boom''))) (Finite 300)
            3 4 5 6))) = FAILED
   \<and> task_error (fst (snd (execute_task sample_str sample_exc_str created_manager sample_task
            leaves_task (DeadlineExceeded (RaisesLate (OtherException ''boom''))) (Finite 300)
            3 4 5 6)))
       = Some \<lparr>error_code = - 32603, error_message = ''boom'', error_data = JNull\<rparr>"
proof -
  have c: "create_task sample_manager ''tools/call'' None None ''t1'' 1 2
     = Inr (sample_task, Finite 300, created_manager)"
    by (simp add: create_task_def sample_manager_def manager_init_def default_task_config_def
                  Let_def new_task_def is_active_def sample_task_def created_manager_def)
  have l: "\<forall>x. task_state (leaves_task x) = task_state x" by (simp add: leaves_task_def)
  have x: "is_Exception (OtherException ''boom'')" by (simp add: is_Exception_def)
  from executor_failure_becomes_failed_task [OF c l, of "DeadlineExceeded Stops" sample_str sample_exc_str 3 4 5 6]
       executor_failure_becomes_failed_task [OF c l, of "DeadlineExceeded (RaisesLate (OtherException ''boom''))" sample_str
             sample_exc_str 3 4 5 6 "OtherException ''boom''"]
       c x
  show ?thesis by (simp add: INTERNAL_TASK_ERROR_def sample_exc_str_def)
qed

text \<open>
  The specification's wording fails in four ways. An executor that raises
  \<open>asyncio.TimeoutError\<close> itself, well within its deadline, ends with the timeout error
  -32001, not -32603. An exception outside \<open>Exception\<close> (\<open>SystemExit\<close>, say) is caught by
  no clause: it leaves the coroutine and the task stays RUNNING. An executor that exceeds
  its deadline but catches the cancellation and returns ends COMPLETED, with no error. And
  an executor that has completed the task itself before raising makes the handler's
  transition to FAILED raise \<open>InvalidTaskTransition\<close>, which leaves the coroutine.
\<close>

theorem executor_outcomes_outside_the_rule:
  "map_option error_code (task_error (fst (snd (execute_task sample_str sample_exc_str
      created_manager sample_task leaves_task (Raised AsyncioTimeoutError) (Finite 300)
      3 4 5 6))))
     = Some (- 32001)
   \<and> fst (execute_task sample_str sample_exc_str created_manager sample_task leaves_task
      (Raised (OtherBaseException ''SystemExit'')) (Finite 300) 3 4 5 6)
     = Some (OtherBaseException ''SystemExit'')
   \<and> task_state (fst (snd (execute_task sample_str sample_exc_str created_manager sample_task
      leaves_task (Raised (OtherBaseException ''SystemExit'')) (Finite 300) 3 4 5 6)))
     = RUNNING
   \<and> task_state (fst (snd (execute_task sample_str sample_exc_str created_manager sample_task
      leaves_task (DeadlineExceeded (ReturnsLate (JStr ''late result''))) (Finite 300) 3 4 5 6)))
     = COMPLETED
   \<and> task_error (fst (snd (execute_task sample_str sample_exc_str created_manager sample_task
      leaves_task (DeadlineExceeded (ReturnsLate (JStr ''late result''))) (Finite 300) 3 4 5 6)))
     = None
   \<and> fst (execute_task sample_str sample_exc_str created_manager sample_task completes_task
      (Raised (OtherException ''boom'')) (Finite 300) 3 4 5 6)
     = Some (TaskTransitionError (InvalidTaskTransition ''t1'' COMPLETED FAILED))
   \<and> task_state (fst (snd (execute_task sample_str sample_exc_str created_manager sample_task
      completes_task (Raised (OtherException ''boom'')) (Finite 300) 3 4 5 6)))
     = COMPLETED"
  by (simp add: execute_task_def execute_handlers_def transition_task_def transition_def
                store_task_def Let_def wait_for_def is_Exception_def sample_manager_def
                manager_init_def new_task_def sample_task_def created_manager_def
                leaves_task_def completes_task_def)

subsection \<open>Requests\<close>


























end
